theory Spec2Isabelle
  imports Main "HOL-Library.Multiset"
begin

section \<open>Data model (src/types/game.ts)\<close>

text \<open>
  The card colours and card types of \<^verbatim>\<open>CardColor\<close> and \<^verbatim>\<open>CardType\<close>.
  The colour \<^verbatim>\<open>'wild'\<close> is \<open>Wild\<close>; the card type \<^verbatim>\<open>'wild'\<close> is \<open>WildCard\<close>.
\<close>

datatype CardColor = Red | Blue | Green | Yellow | Wild

datatype CardType =
    Number | Skip | Reverse | Draw2 | Draw4 | Draw6 | Draw10
  | WildCard | Wild_draw2 | Wild_draw4 | Wild_draw_color
  | Skip_everyone | Reverse_everyone | Discard_all | Color_roulette

text \<open>
  \<^verbatim>\<open>interface Card { id: string; type: CardType; color: CardColor; value?: number }\<close>.
  An absent \<^verbatim>\<open>value\<close> is \<open>None\<close>.
\<close>

record Card =
  card_id :: string
  card_type :: CardType
  color :: CardColor
  card_value :: "nat option"

record Player =
  player_id :: string
  name :: string
  cards :: "Card list"
  isAI :: bool
  isHost :: bool
  isConnected :: bool
  hasCalledUno :: bool

datatype GameStatus = Waiting | Playing | Finished

text \<open>\<^verbatim>\<open>type Direction = 1 | -1\<close>: a two-valued type.\<close>

datatype Direction = Plus1 | Minus1

fun direction_value :: "Direction \<Rightarrow> int" where
  "direction_value Plus1 = 1"
| "direction_value Minus1 = - 1"

text \<open>\<^verbatim>\<open>state.direction * -1\<close>\<close>

fun times_minus1 :: "Direction \<Rightarrow> Direction" where
  "times_minus1 Plus1 = Minus1"
| "times_minus1 Minus1 = Plus1"

text \<open>
  \<^verbatim>\<open>interface GameState\<close>. The two timestamps \<^verbatim>\<open>createdAt\<close> and \<^verbatim>\<open>updatedAt\<close> are left
  out: they are written from the wall clock and never read by the rules engine. Indices and
  counts are natural numbers; the one place where the source computes something that is not
  a number (a remainder by the length of an empty roster) is an outcome of its own, see
  \<open>NaN_index\<close> below.
\<close>

record GameState =
  game_id :: string
  status :: GameStatus
  players :: "Player list"
  currentPlayerIndex :: nat
  direction :: Direction
  drawPile :: "Card list"
  discardPile :: "Card list"
  currentColor :: CardColor
  pendingDrawCount :: nat
  pendingDrawType :: "CardType option"
  winnerId :: "string option"
  hostId :: string
  roomCode :: string
  maxPlayers :: nat
  isPrivate :: bool

text \<open>
  Every \<^verbatim>\<open>throw new Error(...)\<close> of the engine is one constructor. \<open>TypeError\<close> is the
  exception JavaScript raises when a property of \<^verbatim>\<open>undefined\<close> is read (an array read
  out of range followed by \<^verbatim>\<open>.id\<close>, \<^verbatim>\<open>.cards\<close> or \<^verbatim>\<open>.color\<close>). \<open>NaN_index\<close> is not a throw:
  the source returns a state whose \<^verbatim>\<open>currentPlayerIndex\<close> is \<^verbatim>\<open>NaN\<close> (\<^verbatim>\<open>x % 0\<close>); the index
  type of the model has no such value, so that outcome is reported separately.
\<close>

datatype error =
    Game_is_full | Game_has_already_started | Need_at_least_2_players
  | Cannot_play_this_card | Cannot_play_these_cards | Player_not_found
  | Target_player_not_found | No_cards_to_discard | All_cards_must_be_same_color
  | Cards_must_match_current_color | Can_only_call_UNO_with_one_card
  | Cannot_challenge_this_player | TypeError | NaN_index

section \<open>Ambient sources: random numbers and fresh identifiers\<close>

text \<open>
  \<^verbatim>\<open>Math.random()\<close> and \<^verbatim>\<open>uuidv4()\<close> read from the environment. The model threads
  the environment explicitly: \<open>randoms\<close> holds the successive results of \<^verbatim>\<open>Math.random()\<close>
  as raw naturals, and \<^verbatim>\<open>Math.floor(Math.random() * n)\<close> is the next raw number modulo \<open>n\<close>
  (any index below \<open>n\<close>, and only those); \<open>uuids\<close> holds the identifiers that the
  successive calls of \<^verbatim>\<open>uuidv4()\<close> return. An exhausted tape reads \<open>0\<close>, respectively the
  empty string.
\<close>

record World =
  randoms :: "nat list"
  uuids :: "string list"

fun random_below :: "nat \<Rightarrow> World \<Rightarrow> nat \<times> World" where
  "random_below n w =
     (case randoms w of
        [] \<Rightarrow> (0, w)
      | r # rs \<Rightarrow> (r mod n, w\<lparr>randoms := rs\<rparr>))"

fun uuidv4 :: "World \<Rightarrow> string \<times> World" where
  "uuidv4 w =
     (case uuids w of
        [] \<Rightarrow> ([], w)
      | u # us \<Rightarrow> (u, w\<lparr>uuids := us\<rparr>))"

section \<open>Deck builder (src/lib/game-logic.ts)\<close>

definition COLORS :: "CardColor list" where
  "COLORS = [Red, Blue, Green, Yellow]"

text \<open>The face of a card: everything but its identifier.\<close>

type_synonym face = "CardType \<times> CardColor \<times> nat option"

definition card_face :: "Card \<Rightarrow> face" where
  "card_face c = (card_type c, color c, card_value c)"

text \<open>
  \<^verbatim>\<open>deck.push({ id: uuidv4(), type, color, value })\<close> for every face of a list, in order: each
  push takes the next fresh identifier.
\<close>

fun push_all :: "face list \<Rightarrow> World \<Rightarrow> Card list \<times> World" where
  "push_all [] w = ([], w)"
| "push_all ((t, c, v) # fs) w =
     (let (u, w1) = uuidv4 w;
          (cs, w2) = push_all fs w1
      in (\<lparr>card_id = u, card_type = t, color = c, card_value = v\<rparr> # cs, w2))"

text \<open>
  The body of the loop \<^verbatim>\<open>for (const color of COLORS)\<close> of \<^verbatim>\<open>createDeck\<close>: one 0, the loop
  \<^verbatim>\<open>for (let i = 1; i <= 9; i++)\<close> pushing each number twice, the loop
  \<^verbatim>\<open>for (let i = 0; i < 2; i++)\<close> pushing skip, reverse and draw2, then the three
  special cards.
\<close>

definition color_faces :: "CardColor \<Rightarrow> face list" where
  "color_faces c =
     [(Number, c, Some 0)]
     @ concat (map (\<lambda>i. [(Number, c, Some i), (Number, c, Some i)]) [1 ..< 10])
     @ concat (replicate 2 [(Skip, c, None), (Reverse, c, None), (Draw2, c, None)])
     @ [(Draw6, c, None), (Skip_everyone, c, None), (Discard_all, c, None)]"

text \<open>The faces pushed by \<^verbatim>\<open>createDeck\<close>, in the order it pushes them.\<close>

definition deck_faces :: "face list" where
  "deck_faces =
     concat (map color_faces COLORS)
     @ concat (replicate 4 [(WildCard, Wild, None), (Wild_draw4, Wild, None)])
     @ concat (replicate 2
         [(Wild_draw2, Wild, None), (Wild_draw_color, Wild, None), (Draw10, Wild, None),
          (Color_roulette, Wild, None), (Reverse_everyone, Wild, None)])"

definition createDeck :: "World \<Rightarrow> Card list \<times> World" where
  "createDeck w = push_all deck_faces w"

text \<open>
  The multiplicities the specification enumerates. Per colour: one 0, two each of 1 to 9,
  two each of skip, reverse and draw2, one each of draw6, skip_everyone and discard_all.
  Colourless: 4 wild, 4 wild_draw4, 2 wild_draw2, 2 wild_draw_color, 2 draw10,
  2 color_roulette, 2 reverse_everyone.
\<close>

definition spec_color_faces :: "CardColor \<Rightarrow> face multiset" where
  "spec_color_faces c =
     {#(Number, c, Some 0)#}
     + (\<Sum>v \<in># mset [1 ..< 10]. replicate_mset 2 (Number, c, Some v))
     + replicate_mset 2 (Skip, c, None)
     + replicate_mset 2 (Reverse, c, None)
     + replicate_mset 2 (Draw2, c, None)
     + {#(Draw6, c, None)#} + {#(Skip_everyone, c, None)#} + {#(Discard_all, c, None)#}"

definition spec_deck_faces :: "face multiset" where
  "spec_deck_faces =
     spec_color_faces Red + spec_color_faces Blue
     + spec_color_faces Green + spec_color_faces Yellow
     + replicate_mset 4 (WildCard, Wild, None)
     + replicate_mset 4 (Wild_draw4, Wild, None)
     + replicate_mset 2 (Wild_draw2, Wild, None)
     + replicate_mset 2 (Wild_draw_color, Wild, None)
     + replicate_mset 2 (Draw10, Wild, None)
     + replicate_mset 2 (Color_roulette, Wild, None)
     + replicate_mset 2 (Reverse_everyone, Wild, None)"

section \<open>Rules engine (src/lib/game-logic.ts)\<close>

subsection \<open>Shuffling and dealing\<close>

text \<open>
  \<^verbatim>\<open>shuffleDeck\<close>: Fisher-Yates from the end. \<open>shuffle_loop i\<close> is the loop
  \<^verbatim>\<open>for (; i > 0; i--) { j = Math.floor(Math.random() * (i + 1)); swap i j }\<close>.
\<close>

fun shuffle_loop :: "nat \<Rightarrow> 'a list \<Rightarrow> World \<Rightarrow> 'a list \<times> World" where
  "shuffle_loop 0 xs w = (xs, w)"
| "shuffle_loop (Suc i) xs w =
     (let (j, w1) = random_below (Suc i + 1) w
      in shuffle_loop i (xs[Suc i := xs ! j, j := xs ! Suc i]) w1)"

definition shuffleDeck :: "'a list \<Rightarrow> World \<Rightarrow> 'a list \<times> World" where
  "shuffleDeck deck w = shuffle_loop (length deck - 1) deck w"

definition dealCards :: "Card list \<Rightarrow> nat \<Rightarrow> Card list \<times> Card list" where
  "dealCards deck numCards = (take numCards deck, drop numCards deck)"

text \<open>\<^verbatim>\<open>Array.prototype.findIndex\<close>; \<open>None\<close> is the result \<^verbatim>\<open>-1\<close>.\<close>

fun findIndex :: "('a \<Rightarrow> bool) \<Rightarrow> 'a list \<Rightarrow> nat option" where
  "findIndex P [] = None"
| "findIndex P (x # xs) = (if P x then Some 0 else map_option Suc (findIndex P xs))"

text \<open>
  The choice of the starting card, written twice in the source (\<^verbatim>\<open>initializeGame\<close> and
  \<^verbatim>\<open>startGame\<close>): the first number card of the deck, position 0 if there is none; the
  draw pile is the deck without it. On an empty deck the starting card is \<^verbatim>\<open>undefined\<close>
  and reading its colour throws.
\<close>

definition pick_starting_card :: "Card list \<Rightarrow> error + Card \<times> Card list" where
  "pick_starting_card deck =
     (let startingCardIndex =
            (case findIndex (\<lambda>crd. card_type crd = Number) deck of
               None \<Rightarrow> 0
             | Some i \<Rightarrow> i)
      in if startingCardIndex < length deck
         then Inr (deck ! startingCardIndex,
                   take startingCardIndex deck @ drop (Suc startingCardIndex) deck)
         else Inl TypeError)"

definition initializeGame ::
    "string \<Rightarrow> string \<Rightarrow> string \<Rightarrow> nat \<Rightarrow> World \<Rightarrow> error + GameState \<times> World" where
  "initializeGame host hostName code maxP w =
     (let (fresh, w1) = createDeck w;
          (deck, w2) = shuffleDeck fresh w1;
          (hostCards, afterHostDeal) = dealCards deck 7
      in case pick_starting_card afterHostDeal of
           Inl e \<Rightarrow> Inl e
         | Inr (startingCard, pile) \<Rightarrow>
             (let (gid, w3) = uuidv4 w2
              in Inr (\<lparr>game_id = gid,
                       status = Waiting,
                       players = [\<lparr>player_id = host, name = hostName, cards = hostCards,
                                   isAI = False, isHost = True, isConnected = True,
                                   hasCalledUno = False\<rparr>],
                       currentPlayerIndex = 0,
                       direction = Plus1,
                       drawPile = pile,
                       discardPile = [startingCard],
                       currentColor =
                         (if color startingCard = Wild then Red else color startingCard),
                       pendingDrawCount = 0,
                       pendingDrawType = None,
                       winnerId = None,
                       hostId = host,
                       roomCode = code,
                       maxPlayers = maxP,
                       isPrivate = False\<rparr>, w3)))"

definition addPlayer :: "GameState \<Rightarrow> string \<Rightarrow> string \<Rightarrow> bool \<Rightarrow> error + GameState" where
  "addPlayer state pid playerName ai =
     (if length (players state) \<ge> maxPlayers state then Inl Game_is_full
      else if status state \<noteq> Waiting then Inl Game_has_already_started
      else Inr (state\<lparr>players := players state @
                  [\<lparr>player_id = pid, name = playerName, cards = [], isAI = ai,
                    isHost = False, isConnected = True, hasCalledUno = False\<rparr>]\<rparr>))"

text \<open>
  The \<^verbatim>\<open>state.players.map\<close> of \<^verbatim>\<open>startGame\<close>, which deals 7 cards to each player in turn
  from the shrinking deck.
\<close>

fun deal_players :: "Player list \<Rightarrow> Card list \<Rightarrow> Player list \<times> Card list" where
  "deal_players [] deck = ([], deck)"
| "deal_players (p # ps) deck =
     (let (dealt, remaining) = dealCards deck 7;
          (ps', deck') = deal_players ps remaining
      in (p\<lparr>cards := dealt, hasCalledUno := False\<rparr> # ps', deck'))"

definition startGame :: "GameState \<Rightarrow> World \<Rightarrow> error + GameState \<times> World" where
  "startGame state w =
     (if status state \<noteq> Waiting then Inl Game_has_already_started
      else if length (players state) < 2 then Inl Need_at_least_2_players
      else
        (let (fresh, w1) = createDeck w;
             (shuffled, w2) = shuffleDeck fresh w1;
             (updatedPlayers, deck) = deal_players (players state) shuffled
         in case pick_starting_card deck of
              Inl e \<Rightarrow> Inl e
            | Inr (startingCard, pile) \<Rightarrow>
                Inr (state\<lparr>status := Playing,
                           players := updatedPlayers,
                           currentPlayerIndex := 0,
                           direction := Plus1,
                           drawPile := pile,
                           discardPile := [startingCard],
                           currentColor :=
                             (if color startingCard = Wild then Red else color startingCard),
                           pendingDrawCount := 0,
                           pendingDrawType := None\<rparr>, w2)))"

subsection \<open>Legality\<close>

definition getTopCard :: "GameState \<Rightarrow> Card option" where
  "getTopCard state =
     (if discardPile state = [] then None else Some (last (discardPile state)))"

definition drawTypes :: "CardType list" where
  "drawTypes = [Draw2, Draw4, Draw6, Draw10, Wild_draw2, Wild_draw4, Wild_draw_color]"

fun drawValues :: "CardType \<Rightarrow> nat" where
  "drawValues Draw2 = 2"
| "drawValues Wild_draw2 = 2"
| "drawValues Draw4 = 4"
| "drawValues Wild_draw4 = 4"
| "drawValues Draw6 = 6"
| "drawValues Wild_draw_color = 4"
| "drawValues Draw10 = 10"
| "drawValues Number = 0"
| "drawValues Skip = 0"
| "drawValues Reverse = 0"
| "drawValues WildCard = 0"
| "drawValues Skip_everyone = 0"
| "drawValues Reverse_everyone = 0"
| "drawValues Discard_all = 0"
| "drawValues Color_roulette = 0"

definition canStackDrawCard :: "Card \<Rightarrow> CardType \<Rightarrow> bool" where
  "canStackDrawCard crd pendingType =
     (if card_type crd \<notin> set drawTypes then False
      else drawValues (card_type crd) \<ge> drawValues pendingType)"

text \<open>
  \<^verbatim>\<open>canPlayCard\<close>. The empty discard pile is answered first; then
  \<^verbatim>\<open>state.players[state.currentPlayerIndex].id\<close> is read, which throws when the index is
  out of range.
\<close>

definition canPlayCard :: "GameState \<Rightarrow> Card \<Rightarrow> string \<Rightarrow> error + bool" where
  "canPlayCard state crd pid =
     (case getTopCard state of
        None \<Rightarrow> Inr True
      | Some topCard \<Rightarrow>
          if currentPlayerIndex state \<ge> length (players state) then Inl TypeError
          else if player_id (players state ! currentPlayerIndex state) \<noteq> pid then Inr False
          else
            (case (if pendingDrawCount state > 0 then pendingDrawType state else None) of
               Some pendingType \<Rightarrow> Inr (canStackDrawCard crd pendingType)
             | None \<Rightarrow>
                 if color crd = Wild then Inr True
                 else if color crd = currentColor state then Inr True
                 else if card_type crd = Number \<and> card_type topCard = Number
                         \<and> card_value crd = card_value topCard then Inr True
                 else if card_type crd = card_type topCard \<and> card_type crd \<noteq> Number
                 then Inr True
                 else Inr False))"

subsection \<open>Turn order\<close>

text \<open>
  One round of the loop of \<^verbatim>\<open>getNextPlayerIndex\<close>:
  \<^verbatim>\<open>next = (next + state.direction + numPlayers) % numPlayers\<close>. With at least one player
  the dividend is not negative, so JavaScript's remainder is \<open>mod\<close>.
\<close>

definition next_seat :: "nat \<Rightarrow> Direction \<Rightarrow> nat \<Rightarrow> nat" where
  "next_seat numPlayers d next =
     nat ((int next + direction_value d + int numPlayers) mod int numPlayers)"

text \<open>
  \<^verbatim>\<open>getNextPlayerIndex(state, skip)\<close>. With an empty roster every round computes
  \<^verbatim>\<open>x % 0\<close>, which is \<^verbatim>\<open>NaN\<close>.
\<close>

definition getNextPlayerIndex :: "GameState \<Rightarrow> nat \<Rightarrow> error + nat" where
  "getNextPlayerIndex state skip =
     (if skip = 0 then Inr (currentPlayerIndex state)
      else if players state = [] then Inl NaN_index
      else Inr ((next_seat (length (players state)) (direction state) ^^ skip)
                  (currentPlayerIndex state)))"

subsection \<open>Drawing and elimination\<close>

text \<open>
  \<^verbatim>\<open>newDiscardPile.map(card => ({ ...card, id: uuidv4() }))\<close>: every recycled card gets a
  new identifier.
\<close>

fun renew_ids :: "Card list \<Rightarrow> World \<Rightarrow> Card list \<times> World" where
  "renew_ids [] w = ([], w)"
| "renew_ids (c # cs) w =
     (let (u, w1) = uuidv4 w;
          (cs', w2) = renew_ids cs w1
      in (c\<lparr>card_id := u\<rparr> # cs', w2))"

text \<open>
  The reshuffle inside the loop of \<^verbatim>\<open>drawCards\<close>: pop the top card of the discard pile,
  shuffle the rest (with new identifiers) into the draw pile, keep the top card alone. The
  result is (draw pile, discard pile).
\<close>

definition reshuffle :: "Card list \<Rightarrow> World \<Rightarrow> (Card list \<times> Card list) \<times> World" where
  "reshuffle discard w =
     (let (recycled, w1) = renew_ids (butlast discard) w;
          (pile, w2) = shuffleDeck recycled w1
      in ((pile, if discard = [] then [] else [last discard]), w2))"

text \<open>
  The loop \<^verbatim>\<open>for (let i = 0; i < count; i++)\<close> of \<^verbatim>\<open>drawCards\<close> on
  (newDrawPile, newDiscardPile, drawnCards). The top of a pile is its end.
\<close>

fun draw_loop ::
    "nat \<Rightarrow> Card list \<Rightarrow> Card list \<Rightarrow> Card list \<Rightarrow> World
     \<Rightarrow> (Card list \<times> Card list \<times> Card list) \<times> World" where
  "draw_loop 0 pile discard drawn w = ((pile, discard, drawn), w)"
| "draw_loop (Suc n) pile discard drawn w =
     (let ((pile1, discard1), w1) =
            (if pile = [] then reshuffle discard w else ((pile, discard), w))
      in if pile1 \<noteq> []
         then draw_loop n (butlast pile1) discard1 (drawn @ [last pile1]) w1
         else draw_loop n pile1 discard1 drawn w1)"

text \<open>
  \<^verbatim>\<open>eliminatePlayer\<close>. The new index is computed before the roster size is looked at, so
  \<^verbatim>\<open>newCurrentIndex % remainingPlayers.length\<close> is \<^verbatim>\<open>NaN\<close> when nobody remains; when
  exactly one player remains the computed index is dropped for 0.
\<close>

definition eliminatePlayer :: "GameState \<Rightarrow> string \<Rightarrow> World \<Rightarrow> error + GameState \<times> World" where
  "eliminatePlayer state pid w =
     (case findIndex (\<lambda>p. player_id p = pid) (players state) of
        None \<Rightarrow> Inr (state, w)
      | Some playerIndex \<Rightarrow>
          (let eliminatedPlayer = players state ! playerIndex;
               remainingPlayers = filter (\<lambda>p. player_id p \<noteq> pid) (players state);
               (newDrawPile, w1) = shuffleDeck (drawPile state @ cards eliminatedPlayer) w
           in if length remainingPlayers = 1
              then Inr (state\<lparr>status := Finished,
                              players := remainingPlayers,
                              winnerId := Some (player_id (hd remainingPlayers)),
                              drawPile := newDrawPile,
                              currentPlayerIndex := 0\<rparr>, w1)
              else if playerIndex < currentPlayerIndex state
              then Inr (state\<lparr>players := remainingPlayers,
                              drawPile := newDrawPile,
                              currentPlayerIndex := currentPlayerIndex state - 1\<rparr>, w1)
              else if playerIndex = currentPlayerIndex state
              then (if remainingPlayers = [] then Inl NaN_index
                    else Inr (state\<lparr>players := remainingPlayers,
                                    drawPile := newDrawPile,
                                    currentPlayerIndex :=
                                      currentPlayerIndex state mod length remainingPlayers\<rparr>,
                              w1))
              else Inr (state\<lparr>players := remainingPlayers,
                              drawPile := newDrawPile\<rparr>, w1)))"

definition drawCards :: "GameState \<Rightarrow> string \<Rightarrow> nat \<Rightarrow> World \<Rightarrow> error + GameState \<times> World" where
  "drawCards state pid cnt w =
     (case findIndex (\<lambda>p. player_id p = pid) (players state) of
        None \<Rightarrow> Inl Player_not_found
      | Some playerIndex \<Rightarrow>
          (let ((newDrawPile, newDiscardPile, drawnCards), w1) =
                 draw_loop cnt (drawPile state) (discardPile state) [] w;
               p = players state ! playerIndex;
               updatedPlayer = p\<lparr>cards := cards p @ drawnCards, hasCalledUno := False\<rparr>;
               newPlayers = (players state)[playerIndex := updatedPlayer]
           in if length (cards updatedPlayer) \<ge> 25
              then eliminatePlayer
                     (state\<lparr>players := newPlayers, drawPile := newDrawPile,
                            discardPile := newDiscardPile\<rparr>) pid w1
              else Inr (state\<lparr>players := newPlayers, drawPile := newDrawPile,
                              discardPile := newDiscardPile\<rparr>, w1)))"

subsection \<open>Playing cards\<close>

text \<open>
  \<^verbatim>\<open>handleCardEffect\<close>. \<open>newState\<close> below is the copy whose colour has been updated; every
  call of \<^verbatim>\<open>getNextPlayerIndex\<close> is made on the copy as it stands at that point.
\<close>

definition advance :: "GameState \<Rightarrow> nat \<Rightarrow> World \<Rightarrow> error + GameState \<times> World" where
  "advance newState skip w =
     (case getNextPlayerIndex newState skip of
        Inl e \<Rightarrow> Inl e
      | Inr i \<Rightarrow> Inr (newState\<lparr>currentPlayerIndex := i\<rparr>, w))"

definition pending_draw :: "GameState \<Rightarrow> GameState \<Rightarrow> nat \<Rightarrow> CardType \<Rightarrow> GameState" where
  "pending_draw state newState n t =
     newState\<lparr>pendingDrawCount := pendingDrawCount state + n, pendingDrawType := Some t\<rparr>"

definition handleCardEffect ::
    "GameState \<Rightarrow> Card \<Rightarrow> string \<Rightarrow> CardColor option \<Rightarrow> World \<Rightarrow> error + GameState \<times> World" where
  "handleCardEffect state crd pid selectedColor w =
     (let newState =
            (if color crd = Wild \<and> selectedColor \<noteq> None
             then state\<lparr>currentColor := the selectedColor\<rparr>
             else if color crd \<noteq> Wild then state\<lparr>currentColor := color crd\<rparr>
             else state)
      in case card_type crd of
           Skip \<Rightarrow> advance newState 2 w
         | Reverse \<Rightarrow>
             if length (players state) = 2 then advance newState 2 w
             else advance (newState\<lparr>direction := times_minus1 (direction state)\<rparr>) 1 w
         | Skip_everyone \<Rightarrow> Inr (newState, w)
         | Reverse_everyone \<Rightarrow>
             Inr (newState\<lparr>direction := times_minus1 (direction state)\<rparr>, w)
         | Draw2 \<Rightarrow> advance (pending_draw state newState 2 Draw2) 1 w
         | Wild_draw2 \<Rightarrow> advance (pending_draw state newState 2 Wild_draw2) 1 w
         | Draw4 \<Rightarrow> advance (pending_draw state newState 4 Draw4) 1 w
         | Wild_draw4 \<Rightarrow> advance (pending_draw state newState 4 Wild_draw4) 1 w
         | Draw6 \<Rightarrow> advance (pending_draw state newState 6 Draw6) 1 w
         | Draw10 \<Rightarrow> advance (pending_draw state newState 10 Draw10) 1 w
         | Wild_draw_color \<Rightarrow> advance (pending_draw state newState 4 Wild_draw_color) 1 w
         | Color_roulette \<Rightarrow>
             (let (k, w1) = random_below (length COLORS) w
              in advance (newState\<lparr>currentColor := COLORS ! k\<rparr>) 1 w1)
         | WildCard \<Rightarrow> advance newState 1 w
         | Number \<Rightarrow> advance newState 1 w
         | Discard_all \<Rightarrow> advance newState 1 w)"

text \<open>
  \<^verbatim>\<open>playCard\<close>. A player id that is not in the roster gives \<^verbatim>\<open>players[-1]\<close>, which is
  \<^verbatim>\<open>undefined\<close>, and reading its cards throws.
\<close>

definition playCard ::
    "GameState \<Rightarrow> string \<Rightarrow> Card \<Rightarrow> CardColor option \<Rightarrow> World \<Rightarrow> error + GameState \<times> World" where
  "playCard state pid crd selectedColor w =
     (case canPlayCard state crd pid of
        Inl e \<Rightarrow> Inl e
      | Inr False \<Rightarrow> Inl Cannot_play_this_card
      | Inr True \<Rightarrow>
          (case findIndex (\<lambda>p. player_id p = pid) (players state) of
             None \<Rightarrow> Inl TypeError
           | Some playerIndex \<Rightarrow>
               (let player = players state ! playerIndex;
                    newCards = filter (\<lambda>c. card_id c \<noteq> card_id crd) (cards player);
                    newState = state\<lparr>discardPile := discardPile state @ [crd],
                                     players := (players state)
                                       [playerIndex := player\<lparr>cards := newCards\<rparr>]\<rparr>
                in case handleCardEffect newState crd pid selectedColor w of
                     Inl e \<Rightarrow> Inl e
                   | Inr (newState', w1) \<Rightarrow>
                       if newCards = []
                       then Inr (newState'\<lparr>status := Finished, winnerId := Some pid\<rparr>, w1)
                       else Inr (newState', w1))))"

definition playDiscardAll :: "GameState \<Rightarrow> string \<Rightarrow> Card list \<Rightarrow> error + GameState" where
  "playDiscardAll state pid cs =
     (if cs = [] then Inl No_cards_to_discard
      else if \<not> list_all (\<lambda>c. color c = color (hd cs)) cs
      then Inl All_cards_must_be_same_color
      else if color (hd cs) \<noteq> currentColor state then Inl Cards_must_match_current_color
      else
        (case findIndex (\<lambda>p. player_id p = pid) (players state) of
           None \<Rightarrow> Inl TypeError
         | Some playerIndex \<Rightarrow>
             (let player = players state ! playerIndex;
                  cardIds = set (map card_id cs);
                  newCards = filter (\<lambda>c. card_id c \<notin> cardIds) (cards player)
              in case getNextPlayerIndex state 1 of
                   Inl e \<Rightarrow> Inl e
                 | Inr next \<Rightarrow>
                     (let newState = state\<lparr>discardPile := discardPile state @ cs,
                                            players := (players state)
                                              [playerIndex := player\<lparr>cards := newCards\<rparr>],
                                            currentPlayerIndex := next\<rparr>
                      in if newCards = []
                         then Inr (newState\<lparr>status := Finished, winnerId := Some pid\<rparr>)
                         else Inr newState))))"

definition processDrawPenalty :: "GameState \<Rightarrow> World \<Rightarrow> error + GameState \<times> World" where
  "processDrawPenalty state w =
     (if pendingDrawCount state = 0 then Inr (state, w)
      else if currentPlayerIndex state \<ge> length (players state) then Inl TypeError
      else
        (case drawCards state (player_id (players state ! currentPlayerIndex state))
                (pendingDrawCount state) w of
           Inl e \<Rightarrow> Inl e
         | Inr (newState, w1) \<Rightarrow>
             (case getNextPlayerIndex newState 1 of
                Inl e \<Rightarrow> Inl e
              | Inr next \<Rightarrow>
                  Inr (newState\<lparr>pendingDrawCount := 0, pendingDrawType := None,
                                 currentPlayerIndex := next\<rparr>, w1))))"

definition callUno :: "GameState \<Rightarrow> string \<Rightarrow> error + GameState" where
  "callUno state pid =
     (case findIndex (\<lambda>p. player_id p = pid) (players state) of
        None \<Rightarrow> Inl Player_not_found
      | Some playerIndex \<Rightarrow>
          (let player = players state ! playerIndex
           in if length (cards player) \<noteq> 1 then Inl Can_only_call_UNO_with_one_card
              else Inr (state\<lparr>players := (players state)
                                 [playerIndex := player\<lparr>hasCalledUno := True\<rparr>]\<rparr>)))"

definition challengeUno ::
    "GameState \<Rightarrow> string \<Rightarrow> string \<Rightarrow> World \<Rightarrow> error + GameState \<times> World" where
  "challengeUno state challengerId targetId w =
     (case findIndex (\<lambda>p. player_id p = targetId) (players state) of
        None \<Rightarrow> Inl Target_player_not_found
      | Some targetIndex \<Rightarrow>
          (let target = players state ! targetIndex
           in if length (cards target) \<noteq> 1 \<or> hasCalledUno target
              then Inl Cannot_challenge_this_player
              else drawCards state targetId 4 w))"

subsection \<open>Playing several cards at once\<close>

text \<open>
  \<^verbatim>\<open>cards.some(c => canPlayCard(state, c, playerId))\<close>: stops at the first card that can be
  played, and at the first call that throws.
\<close>

fun some_playable :: "GameState \<Rightarrow> string \<Rightarrow> Card list \<Rightarrow> error + bool" where
  "some_playable state pid [] = Inr False"
| "some_playable state pid (c # cs) =
     (case canPlayCard state c pid of
        Inl e \<Rightarrow> Inl e
      | Inr True \<Rightarrow> Inr True
      | Inr False \<Rightarrow> some_playable state pid cs)"

definition canPlayMultipleCards :: "GameState \<Rightarrow> Card list \<Rightarrow> string \<Rightarrow> error + bool" where
  "canPlayMultipleCards state cs pid =
     (if cs = [] then Inr False
      else if length cs = 1 then canPlayCard state (hd cs) pid
      else if card_type (hd cs) \<noteq> Number then Inr False
      else if \<not> list_all (\<lambda>c. card_type c = Number \<and> card_value c = card_value (hd cs)) cs
      then Inr False
      else some_playable state pid cs)"

text \<open>
  \<^verbatim>\<open>playMultipleCards\<close>. The comparator of the sort orders the cards by whether they can
  be played (those that cannot first); \<^verbatim>\<open>Array.prototype.sort\<close> is stable, as \<open>sort_key\<close>
  is. The comparator cannot throw here: the legality check before it has already called
  \<^verbatim>\<open>canPlayCard\<close> on this state without a throw, and whether it throws does not depend on
  the card.
\<close>

definition playMultipleCards :: "GameState \<Rightarrow> string \<Rightarrow> Card list \<Rightarrow> error + GameState" where
  "playMultipleCards state pid cs =
     (case canPlayMultipleCards state cs pid of
        Inl e \<Rightarrow> Inl e
      | Inr False \<Rightarrow> Inl Cannot_play_these_cards
      | Inr True \<Rightarrow>
          (let sortedCards =
                 sort_key (\<lambda>c. if canPlayCard state c pid = Inr True then 1 else 0 :: nat) cs
           in case findIndex (\<lambda>p. player_id p = pid) (players state) of
                None \<Rightarrow> Inl TypeError
              | Some playerIndex \<Rightarrow>
                  (let player = players state ! playerIndex;
                       cardIds = set (map card_id cs);
                       newCards = filter (\<lambda>c. card_id c \<notin> cardIds) (cards player);
                       lastCard = last sortedCards
                   in case getNextPlayerIndex state 1 of
                        Inl e \<Rightarrow> Inl e
                      | Inr next \<Rightarrow>
                          (let newState =
                                 state\<lparr>discardPile := discardPile state @ sortedCards,
                                       players := (players state)
                                         [playerIndex := player\<lparr>cards := newCards\<rparr>],
                                       currentColor :=
                                         (if color lastCard = Wild then currentColor state
                                          else color lastCard),
                                       currentPlayerIndex := next\<rparr>
                           in if newCards = []
                              then Inr (newState\<lparr>status := Finished, winnerId := Some pid\<rparr>)
                              else Inr newState))))"

subsection \<open>The engine as a transition system\<close>

text \<open>
  The operations of the engine that take a state to a state, as one type of request, and
  their dispatch. A call that throws yields no state.
\<close>

datatype Action =
    AddPlayer string string bool
  | StartGame
  | PlayCard string Card "CardColor option"
  | PlayMultipleCards string "Card list"
  | PlayDiscardAll string "Card list"
  | DrawCards string nat
  | ProcessDrawPenalty
  | CallUno string
  | ChallengeUno string string

definition with_world :: "World \<Rightarrow> error + GameState \<Rightarrow> error + GameState \<times> World" where
  "with_world w r = (case r of Inl e \<Rightarrow> Inl e | Inr s \<Rightarrow> Inr (s, w))"

fun apply_action :: "Action \<Rightarrow> GameState \<Rightarrow> World \<Rightarrow> error + GameState \<times> World" where
  "apply_action (AddPlayer pid nm ai) state w = with_world w (addPlayer state pid nm ai)"
| "apply_action StartGame state w = startGame state w"
| "apply_action (PlayCard pid crd sel) state w = playCard state pid crd sel w"
| "apply_action (PlayMultipleCards pid cs) state w = with_world w (playMultipleCards state pid cs)"
| "apply_action (PlayDiscardAll pid cs) state w = with_world w (playDiscardAll state pid cs)"
| "apply_action (DrawCards pid n) state w = drawCards state pid n w"
| "apply_action ProcessDrawPenalty state w = processDrawPenalty state w"
| "apply_action (CallUno pid) state w = with_world w (callUno state pid)"
| "apply_action (ChallengeUno challenger target) state w = challengeUno state challenger target w"

text \<open>The number of cards in play: all hands, the draw pile and the discard pile.\<close>

definition total_cards :: "GameState \<Rightarrow> nat" where
  "total_cards state =
     sum_list (map (\<lambda>p. length (cards p)) (players state))
     + length (drawPile state) + length (discardPile state)"

text \<open>
  The cards \<open>cs\<close> are taken from the hand of player \<open>pid\<close>: the player is in the roster,
  the identifiers in the hand are unique, and \<open>cs\<close> are different cards of that hand.
\<close>

definition taken_from_hand :: "GameState \<Rightarrow> string \<Rightarrow> Card list \<Rightarrow> bool" where
  "taken_from_hand state pid cs =
     (case findIndex (\<lambda>p. player_id p = pid) (players state) of
        None \<Rightarrow> False
      | Some i \<Rightarrow>
          distinct (map card_id (cards (players state ! i)))
          \<and> distinct cs \<and> list_all (\<lambda>c. c \<in> set (cards (players state ! i))) cs)"

text \<open>The cards that a request plays are taken from the hand of the player who plays them.\<close>

fun plays_from_hand :: "Action \<Rightarrow> GameState \<Rightarrow> bool" where
  "plays_from_hand (PlayCard pid crd sel) state = taken_from_hand state pid [crd]"
| "plays_from_hand (PlayMultipleCards pid cs) state = taken_from_hand state pid cs"
| "plays_from_hand (PlayDiscardAll pid cs) state = taken_from_hand state pid cs"
| "plays_from_hand _ state = True"

text \<open>
  The states the engine produces: the result of \<^verbatim>\<open>initializeGame\<close>, and the result of any
  request on a produced state, in any environment. \<open>allowed\<close> restricts the
  \<^verbatim>\<open>selectedColor\<close> arguments that callers pass to \<^verbatim>\<open>playCard\<close>.
\<close>

fun selection_allowed :: "(CardColor option \<Rightarrow> bool) \<Rightarrow> Action \<Rightarrow> bool" where
  "selection_allowed allowed (PlayCard pid crd sel) = allowed sel"
| "selection_allowed allowed _ = True"

inductive produced :: "(CardColor option \<Rightarrow> bool) \<Rightarrow> GameState \<Rightarrow> bool"
  for allowed :: "CardColor option \<Rightarrow> bool" where
  init: "initializeGame host hostName code maxP w = Inr (state, w') \<Longrightarrow> produced allowed state"
| step: "produced allowed state \<Longrightarrow> selection_allowed allowed action \<Longrightarrow>
         apply_action action state w = Inr (state', w') \<Longrightarrow> produced allowed state'"

section \<open>Example states\<close>

text \<open>Small concrete cards, players and states on which the theorems below are exercised.\<close>

definition mk_card :: "string \<Rightarrow> CardType \<Rightarrow> CardColor \<Rightarrow> nat option \<Rightarrow> Card" where
  "mk_card i t c v = \<lparr>card_id = i, card_type = t, color = c, card_value = v\<rparr>"

definition mk_player :: "string \<Rightarrow> Card list \<Rightarrow> Player" where
  "mk_player i cs =
     \<lparr>player_id = i, name = i, cards = cs, isAI = False, isHost = False,
      isConnected = True, hasCalledUno = False\<rparr>"

text \<open>
  A game in progress, direction +1, no winner: roster, current index, draw pile, discard
  pile, current colour, pending draw count and type.
\<close>

definition mk_state ::
    "Player list \<Rightarrow> nat \<Rightarrow> Card list \<Rightarrow> Card list \<Rightarrow> CardColor \<Rightarrow> nat \<Rightarrow> CardType option
     \<Rightarrow> GameState" where
  "mk_state ps i pile discard col n t =
     \<lparr>game_id = ''g'', status = Playing, players = ps, currentPlayerIndex = i,
      direction = Plus1, drawPile = pile, discardPile = discard, currentColor = col,
      pendingDrawCount = n, pendingDrawType = t, winnerId = None, hostId = ''p1'',
      roomCode = ''ABCDEF'', maxPlayers = 4, isPrivate = False\<rparr>"

definition no_world :: World where
  "no_world = \<lparr>randoms = [], uuids = []\<rparr>"

definition red5 :: Card where "red5 = mk_card ''c1'' Number Red (Some 5)"
definition blue7 :: Card where "blue7 = mk_card ''c2'' Number Blue (Some 7)"
definition green3 :: Card where "green3 = mk_card ''c3'' Number Green (Some 3)"
definition green_draw4 :: Card where "green_draw4 = mk_card ''c4'' Draw4 Green None"
definition red9 :: Card where "red9 = mk_card ''c5'' Number Red (Some 9)"
definition yellow1 :: Card where "yellow1 = mk_card ''c6'' Number Yellow (Some 1)"
definition yellow2 :: Card where "yellow2 = mk_card ''c7'' Number Yellow (Some 2)"
definition blue_draw2 :: Card where "blue_draw2 = mk_card ''c8'' Draw2 Blue None"
definition a_wild :: Card where "a_wild = mk_card ''c9'' WildCard Wild None"
definition red2 :: Card where "red2 = mk_card ''c10'' Number Red (Some 2)"

text \<open>Two players, the first to move, a red 9 on the discard pile.\<close>

definition two_players :: "Player list" where
  "two_players = [mk_player ''p1'' [red5, blue7], mk_player ''p2'' [green3, green_draw4]]"

definition plain_state :: GameState where
  "plain_state = mk_state two_players 0 [yellow1, yellow2] [red9] Red 0 None"

text \<open>The same table with a draw2 played on the first player: 2 cards pending.\<close>

definition pending_state :: GameState where
  "pending_state =
     mk_state two_players 1 [yellow1, yellow2] [red9, blue_draw2] Blue 2 (Some Draw2)"

text \<open>The same, with the discard pile empty.\<close>

definition pending_state_no_discard :: GameState where
  "pending_state_no_discard =
     mk_state two_players 1 [yellow1, yellow2] [] Blue 2 (Some Draw2)"

definition red_skip :: Card where "red_skip = mk_card ''c11'' Skip Red None"
definition blue5 :: Card where "blue5 = mk_card ''c12'' Number Blue (Some 5)"

text \<open>The first player is down to a last card (a red skip), to the cards red 5 and blue 5,
  and to the cards red 5 and red 2.\<close>

definition last_card_state :: GameState where
  "last_card_state =
     mk_state [mk_player ''p1'' [red_skip], mk_player ''p2'' [green3, green_draw4]]
       0 [yellow1, yellow2] [red9] Red 0 None"

definition last_pair_state :: GameState where
  "last_pair_state =
     mk_state [mk_player ''p1'' [red5, blue5], mk_player ''p2'' [green3, green_draw4]]
       0 [yellow1, yellow2] [red9] Red 0 None"

definition last_reds_state :: GameState where
  "last_reds_state =
     mk_state [mk_player ''p1'' [red5, red2], mk_player ''p2'' [green3, green_draw4]]
       0 [yellow1, yellow2] [red9] Red 0 None"

text \<open>
  A hand of 24 cards, one short of elimination, held by the third of three players, who
  is to move with 2 cards pending; and the same hand held by the first player while the
  second is to move.
\<close>

definition big_hand :: "Card list" where
  "big_hand =
     [mk_card ''h01'' Number Red (Some 1),
      mk_card ''h02'' Number Red (Some 1),
      mk_card ''h03'' Number Red (Some 2),
      mk_card ''h04'' Number Red (Some 2),
      mk_card ''h05'' Number Red (Some 3),
      mk_card ''h06'' Number Red (Some 3),
      mk_card ''h07'' Number Red (Some 4),
      mk_card ''h08'' Number Red (Some 4),
      mk_card ''h09'' Number Red (Some 5),
      mk_card ''h10'' Number Red (Some 5),
      mk_card ''h11'' Number Red (Some 6),
      mk_card ''h12'' Number Red (Some 6),
      mk_card ''h13'' Number Red (Some 7),
      mk_card ''h14'' Number Red (Some 7),
      mk_card ''h15'' Number Red (Some 8),
      mk_card ''h16'' Number Red (Some 8),
      mk_card ''h17'' Number Red (Some 9),
      mk_card ''h18'' Number Red (Some 9),
      mk_card ''h19'' Number Green (Some 1),
      mk_card ''h20'' Number Green (Some 2),
      mk_card ''h21'' Number Green (Some 3),
      mk_card ''h22'' Number Green (Some 4),
      mk_card ''h23'' Number Green (Some 5),
      mk_card ''h24'' Number Green (Some 6)]"

definition crowded_state :: GameState where
  "crowded_state =
     mk_state
       [mk_player ''p1'' [red5, blue7], mk_player ''p2'' [green3, green_draw4],
        mk_player ''p3'' big_hand]
       2 [yellow1, yellow2] [red9, blue_draw2] Blue 2 (Some Draw2)"

definition crowded_state' :: GameState where
  "crowded_state' =
     mk_state
       [mk_player ''p3'' big_hand, mk_player ''p1'' [red5, blue7],
        mk_player ''p2'' [green3, green_draw4]]
       1 [yellow1, yellow2] [red9] Red 0 None"

text \<open>
  An environment for a whole deck: 131 different identifiers, and a random tape whose first
  number is 1 (the tape then reads 0).
\<close>

definition uuid_tape :: "string list" where
  "uuid_tape =
     [''u000'', ''u001'', ''u002'', ''u003'', ''u004'', ''u005'', ''u006'', ''u007'',
      ''u008'', ''u009'', ''u010'', ''u011'', ''u012'', ''u013'', ''u014'', ''u015'',
      ''u016'', ''u017'', ''u018'', ''u019'', ''u020'', ''u021'', ''u022'', ''u023'',
      ''u024'', ''u025'', ''u026'', ''u027'', ''u028'', ''u029'', ''u030'', ''u031'',
      ''u032'', ''u033'', ''u034'', ''u035'', ''u036'', ''u037'', ''u038'', ''u039'',
      ''u040'', ''u041'', ''u042'', ''u043'', ''u044'', ''u045'', ''u046'', ''u047'',
      ''u048'', ''u049'', ''u050'', ''u051'', ''u052'', ''u053'', ''u054'', ''u055'',
      ''u056'', ''u057'', ''u058'', ''u059'', ''u060'', ''u061'', ''u062'', ''u063'',
      ''u064'', ''u065'', ''u066'', ''u067'', ''u068'', ''u069'', ''u070'', ''u071'',
      ''u072'', ''u073'', ''u074'', ''u075'', ''u076'', ''u077'', ''u078'', ''u079'',
      ''u080'', ''u081'', ''u082'', ''u083'', ''u084'', ''u085'', ''u086'', ''u087'',
      ''u088'', ''u089'', ''u090'', ''u091'', ''u092'', ''u093'', ''u094'', ''u095'',
      ''u096'', ''u097'', ''u098'', ''u099'', ''u100'', ''u101'', ''u102'', ''u103'',
      ''u104'', ''u105'', ''u106'', ''u107'', ''u108'', ''u109'', ''u110'', ''u111'',
      ''u112'', ''u113'', ''u114'', ''u115'', ''u116'', ''u117'', ''u118'', ''u119'',
      ''u120'', ''u121'', ''u122'', ''u123'', ''u124'', ''u125'', ''u126'', ''u127'',
      ''u128'', ''u129'', ''u130'']"

definition a_world :: World where
  "a_world = \<lparr>randoms = [1], uuids = uuid_tape\<rparr>"

text \<open>
  The game that \<^verbatim>\<open>initializeGame\<close> sets up in that environment, the first card of the
  host's hand (a colourless reverse_everyone), and the states after the host has played
  that card choosing blue, and choosing the colour \<^verbatim>\<open>'wild'\<close>.
\<close>

definition opening_state :: GameState where
  "opening_state = fst (projr (initializeGame ''p1'' ''Ann'' ''ABCDEF'' 4 a_world))"

definition opening_world :: World where
  "opening_world = snd (projr (initializeGame ''p1'' ''Ann'' ''ABCDEF'' 4 a_world))"

definition opening_card :: Card where
  "opening_card = hd (cards (hd (players opening_state)))"

definition blue_state :: GameState where
  "blue_state =
     fst (projr (playCard opening_state ''p1'' opening_card (Some Blue) opening_world))"

definition wild_state :: GameState where
  "wild_state =
     fst (projr (playCard opening_state ''p1'' opening_card (Some Wild) opening_world))"

section \<open>Automated player (src/lib/ai-player.ts)\<close>

datatype AIDifficulty = Easy | Medium | Hard

datatype AIAction = Play | Draw | Call_uno

text \<open>
  \<^verbatim>\<open>interface AIDecision { action; card?; cards?; selectedColor? }\<close>; an absent field is
  \<open>None\<close>.
\<close>

record AIDecision =
  ai_action :: AIAction
  ai_card :: "Card option"
  ai_cards :: "Card list option"
  ai_selectedColor :: "CardColor option"

text \<open>
  \<^verbatim>\<open>getPlayableCards\<close> (game-logic.ts): the filter calls \<^verbatim>\<open>canPlayCard\<close> on every card of
  the hand, so it throws where that throws.
\<close>

fun filter_playable :: "GameState \<Rightarrow> string \<Rightarrow> Card list \<Rightarrow> error + Card list" where
  "filter_playable state pid [] = Inr []"
| "filter_playable state pid (c # cs) =
     (case canPlayCard state c pid of
        Inl e \<Rightarrow> Inl e
      | Inr b \<Rightarrow>
          (case filter_playable state pid cs of
             Inl e \<Rightarrow> Inl e
           | Inr rest \<Rightarrow> Inr (if b then c # rest else rest)))"

definition getPlayableCards :: "GameState \<Rightarrow> string \<Rightarrow> error + Card list" where
  "getPlayableCards state pid =
     (case find (\<lambda>p. player_id p = pid) (players state) of
        None \<Rightarrow> Inr []
      | Some player \<Rightarrow> filter_playable state pid (cards player))"

text \<open>
  \<^verbatim>\<open>getNextPlayer\<close>: with an empty roster the index is \<^verbatim>\<open>NaN\<close> and the result
  \<^verbatim>\<open>undefined\<close>; otherwise the index is within the roster.
\<close>

definition getNextPlayer :: "GameState \<Rightarrow> Player option" where
  "getNextPlayer state =
     (if players state = [] then None
      else Some (players state
                   ! next_seat (length (players state)) (direction state)
                       (currentPlayerIndex state)))"

definition isDrawCard :: "CardType \<Rightarrow> bool" where
  "isDrawCard t =
     (t \<in> set [Draw2, Draw4, Draw6, Draw10, Wild_draw2, Wild_draw4, Wild_draw_color])"

text \<open>\<^verbatim>\<open>counts[type] || 0\<close>\<close>

fun getDrawCount :: "CardType \<Rightarrow> nat" where
  "getDrawCount Draw2 = 2"
| "getDrawCount Wild_draw2 = 2"
| "getDrawCount Draw4 = 4"
| "getDrawCount Wild_draw4 = 4"
| "getDrawCount Draw6 = 6"
| "getDrawCount Wild_draw_color = 4"
| "getDrawCount Draw10 = 10"
| "getDrawCount _ = 0"

fun typePriority :: "CardType \<Rightarrow> nat" where
  "typePriority Draw10 = 100"
| "typePriority Draw6 = 90"
| "typePriority Wild_draw4 = 85"
| "typePriority Draw4 = 80"
| "typePriority Wild_draw_color = 75"
| "typePriority Wild_draw2 = 70"
| "typePriority Draw2 = 65"
| "typePriority Skip_everyone = 60"
| "typePriority Skip = 55"
| "typePriority Reverse_everyone = 50"
| "typePriority Reverse = 45"
| "typePriority Discard_all = 40"
| "typePriority Color_roulette = 35"
| "typePriority Number = 30"
| "typePriority WildCard = 20"

definition getCardPriority :: "Card \<Rightarrow> nat" where
  "getCardPriority crd =
     (case (card_type crd, card_value crd) of
        (Number, Some v) \<Rightarrow> typePriority Number + v
      | (t, _) \<Rightarrow> typePriority t)"

text \<open>
  \<^verbatim>\<open>xs.sort((a, b) => key(b) - key(a))[0]\<close>: the first element of the stable sort by
  descending key.
\<close>

definition first_by_descending :: "('a \<Rightarrow> nat) \<Rightarrow> 'a list \<Rightarrow> 'a" where
  "first_by_descending key xs = hd (sort_key (\<lambda>x. - int (key x)) xs)"

text \<open>\<^verbatim>\<open>countColors(cards)[c]\<close>\<close>

definition countColors :: "Card list \<Rightarrow> CardColor \<Rightarrow> nat" where
  "countColors cs c = length (filter (\<lambda>crd. color crd = c) cs)"

text \<open>
  \<^verbatim>\<open>selectBestColor\<close>: the loop keeps the first colour whose count is strictly above the
  best so far; the state of the loop is (bestColor, maxCount).
\<close>

definition selectBestColor :: "Card list \<Rightarrow> World \<Rightarrow> CardColor \<times> World" where
  "selectBestColor cs w =
     (let (bestColor, maxCount) =
            fold (\<lambda>c (best, m). if countColors cs c > m then (c, countColors cs c) else (best, m))
              [Red, Blue, Green, Yellow] (Red, 0)
      in if maxCount = 0
         then (let (k, w1) = random_below 4 w in ([Red, Blue, Green, Yellow] ! k, w1))
         else (bestColor, w))"

definition selectMediumDifficulty :: "Card list \<Rightarrow> GameState \<Rightarrow> Card" where
  "selectMediumDifficulty playableCards state =
     (let shouldBeAggressive =
            (case getNextPlayer state of
               None \<Rightarrow> False
             | Some nextPlayer \<Rightarrow> length (cards nextPlayer) \<le> 3);
          drawCards' = filter (\<lambda>c. isDrawCard (card_type c)) playableCards;
          skipReverse =
            filter (\<lambda>c. card_type c \<in> set [Skip, Reverse, Skip_everyone, Reverse_everyone])
              playableCards;
          nonWildCards = filter (\<lambda>c. color c \<noteq> Wild) playableCards
      in if shouldBeAggressive \<and> drawCards' \<noteq> []
         then first_by_descending (\<lambda>c. getDrawCount (card_type c)) drawCards'
         else if shouldBeAggressive \<and> skipReverse \<noteq> [] then hd skipReverse
         else if nonWildCards \<noteq> [] then first_by_descending getCardPriority nonWildCards
         else hd playableCards)"

text \<open>
  The dominant colour of \<^verbatim>\<open>selectHardDifficulty\<close>: the entries of the colour counts in the
  order red, blue, green, yellow, without wild, sorted by descending count; the first one.
\<close>

definition dominantColor :: "Card list \<Rightarrow> CardColor" where
  "dominantColor cs = first_by_descending (countColors cs) [Red, Blue, Green, Yellow]"

definition selectHardDifficulty :: "Card list \<Rightarrow> GameState \<Rightarrow> Player \<Rightarrow> Card" where
  "selectHardDifficulty playableCards state player =
     (let disrupt =
            (case getNextPlayer state of
               None \<Rightarrow> False
             | Some nextPlayer \<Rightarrow> length (cards nextPlayer) \<le> 2);
          drawCards' = filter (\<lambda>c. isDrawCard (card_type c)) playableCards;
          skips = filter (\<lambda>c. card_type c \<in> set [Skip, Skip_everyone]) playableCards;
          dominantColorCards =
            filter (\<lambda>c. color c = dominantColor (cards player)) playableCards;
          nonWildCards = filter (\<lambda>c. color c \<noteq> Wild) playableCards;
          wilds = filter (\<lambda>c. color c = Wild) playableCards;
          regularWilds = filter (\<lambda>c. card_type c = WildCard) wilds
      in if disrupt \<and> drawCards' \<noteq> []
         then first_by_descending (\<lambda>c. getDrawCount (card_type c)) drawCards'
         else if disrupt \<and> skips \<noteq> [] then hd skips
         else if dominantColorCards \<noteq> []
         then first_by_descending getCardPriority dominantColorCards
         else if nonWildCards \<noteq> [] then first_by_descending getCardPriority nonWildCards
         else if regularWilds \<noteq> [] then hd regularWilds
         else hd playableCards)"

text \<open>
  \<^verbatim>\<open>selectCardToPlay\<close>, called with a non-empty list of playable cards. The easy tier
  draws its index from the random source.
\<close>

definition selectCardToPlay ::
    "GameState \<Rightarrow> Player \<Rightarrow> Card list \<Rightarrow> AIDifficulty \<Rightarrow> World \<Rightarrow> AIDecision \<times> World" where
  "selectCardToPlay state player playableCards difficulty w =
     (let discardAllCards = filter (\<lambda>c. card_type c = Discard_all) playableCards;
          matchingCards = filter (\<lambda>c. color c = currentColor state) (cards player)
      in if discardAllCards \<noteq> [] \<and> difficulty \<noteq> Easy \<and> length matchingCards \<ge> 3
         then (\<lparr>ai_action = Play, ai_card = Some (hd discardAllCards),
                 ai_cards = Some matchingCards,
                 ai_selectedColor = Some (currentColor state)\<rparr>, w)
         else
           (let (selectedCard, w1) =
                  (case difficulty of
                     Easy \<Rightarrow>
                       (let (k, w') = random_below (length playableCards) w
                        in (playableCards ! k, w'))
                   | Medium \<Rightarrow> (selectMediumDifficulty playableCards state, w)
                   | Hard \<Rightarrow> (selectHardDifficulty playableCards state player, w));
                (selected, w2) =
                  (if color selectedCard = Wild
                   then (let (c, w') = selectBestColor (cards player) w1 in (Some c, w'))
                   else (None, w1))
            in (\<lparr>ai_action = Play, ai_card = Some selectedCard, ai_cards = None,
                  ai_selectedColor = selected\<rparr>, w2)))"

definition makeAIDecision ::
    "GameState \<Rightarrow> string \<Rightarrow> AIDifficulty \<Rightarrow> World \<Rightarrow> error + AIDecision \<times> World" where
  "makeAIDecision state pid difficulty w =
     (let draw = \<lparr>ai_action = Draw, ai_card = None, ai_cards = None, ai_selectedColor = None\<rparr>
      in case find (\<lambda>p. player_id p = pid) (players state) of
           None \<Rightarrow> Inr (draw, w)
         | Some player \<Rightarrow>
             (case getPlayableCards state pid of
                Inl e \<Rightarrow> Inl e
              | Inr playableCards \<Rightarrow>
                  if playableCards = [] then Inr (draw, w)
                  else if length (cards player) = 2
                  then (let (decision, w1) =
                              selectCardToPlay state player playableCards difficulty w
                        in Inr (decision\<lparr>ai_action := Call_uno\<rparr>, w1))
                  else Inr (selectCardToPlay state player playableCards difficulty w)))"

text \<open>
  The first player holds a red discard_all, a red 5, a red 2 and a blue 7 while red is the
  current colour.
\<close>

definition red_discard_all :: Card where
  "red_discard_all = mk_card ''c13'' Discard_all Red None"

definition discard_all_state :: GameState where
  "discard_all_state =
     mk_state
       [mk_player ''p1'' [red_discard_all, red5, red2, blue7],
        mk_player ''p2'' [green3, green_draw4, yellow1, yellow2]]
       0 [a_wild] [red9] Red 0 None"

text \<open>
  A lobby in which the caller adds a second player under the host's id, then a third
  player, and starts the game; and the state after the host's id has drawn 18 cards.
\<close>

definition twin_lobby :: GameState where
  "twin_lobby = projr (addPlayer opening_state ''p1'' ''Ann again'' False)"

definition twin_lobby' :: GameState where
  "twin_lobby' = projr (addPlayer twin_lobby ''p2'' ''Bob'' False)"

definition twin_game :: GameState where
  "twin_game = fst (projr (startGame twin_lobby' a_world))"

definition twin_world :: World where
  "twin_world = snd (projr (startGame twin_lobby' a_world))"

definition twin_game_after :: GameState where
  "twin_game_after = fst (projr (drawCards twin_game ''p1'' 18 twin_world))"

text \<open>
  A hand in which two cards share an identifier, and the state after one of them has been
  played.
\<close>

definition red5_copy :: Card where
  "red5_copy = mk_card ''c1'' Number Blue (Some 7)"

definition same_id_state :: GameState where
  "same_id_state =
     mk_state [mk_player ''p1'' [red5, red5_copy, red2], mk_player ''p2'' [green3, green_draw4]]
       0 [yellow1, yellow2] [red9] Red 0 None"

definition same_id_after :: GameState where
  "same_id_after = fst (projr (playCard same_id_state ''p1'' red5 None no_world))"

text \<open>
  Four seats of which the first two carry the same id, the last to move; and the state
  after that id has drawn 2 cards. The state after the only player of the opening state
  would have drawn 18 cards does not exist in the model.
\<close>

definition twin_seats :: GameState where
  "twin_seats =
     mk_state
       [mk_player ''p3'' big_hand, mk_player ''p3'' [green3, green_draw4],
        mk_player ''p2'' [blue5, red2], mk_player ''p1'' [red5, blue7]]
       3 [yellow1, yellow2] [red9] Red 0 None"

definition twin_seats_after :: GameState where
  "twin_seats_after = fst (projr (drawCards twin_seats ''p3'' 2 no_world))"

section \<open>The deck\<close>

lemma push_all_faces: "map card_face (fst (push_all fs w)) = fs"
  by (induction fs w rule: push_all.induct)
    (simp_all add: card_face_def case_prod_beta Let_def split: list.splits)

lemma upt_1_10: "[Suc 0 ..< 10] = [1, 2, 3, 4, 5, 6, 7, 8, 9 :: nat]"
  by (simp add: upt_rec)

lemma replicate_2: "replicate 2 x = [x, x]"
  by (simp add: numeral_2_eq_2)

lemma replicate_4: "replicate 4 x = [x, x, x, x]"
  by (simp add: eval_nat_numeral)

lemma replicate_mset_2: "replicate_mset 2 x = {#x, x#}"
  by (simp add: numeral_2_eq_2)

lemma replicate_mset_4: "replicate_mset 4 x = {#x, x, x, x#}"
  by (simp add: eval_nat_numeral)

lemma mset_color_faces: "mset (color_faces c) = spec_color_faces c"
  by (simp add: color_faces_def spec_color_faces_def upt_1_10 replicate_2 replicate_mset_2)

lemma length_color_faces: "length (color_faces c) = 28"
  by (simp add: color_faces_def upt_1_10 replicate_2)

lemma mset_deck_faces: "mset deck_faces = spec_deck_faces"
  by (simp add: deck_faces_def spec_deck_faces_def COLORS_def mset_color_faces
      replicate_2 replicate_4 replicate_mset_2 replicate_mset_4)

lemma length_deck_faces: "length deck_faces = 130"
  by (simp add: deck_faces_def COLORS_def length_color_faces replicate_2 replicate_4)

text \<open>
  C1, as the code has it. For every state of the identifier supply (so for every call, however
  many came before), \<^verbatim>\<open>createDeck()\<close> returns a deck whose multiset of faces
  (type, colour, value) is the one the specification enumerates. That multiset has
  130 elements, so the deck has exactly 130 cards.
\<close>

theorem createDeck_composition:
  "mset (map card_face (fst (createDeck w))) = spec_deck_faces
   \<and> length (fst (createDeck w)) = 130"
proof -
  have faces: "map card_face (fst (createDeck w)) = deck_faces"
    by (simp only: createDeck_def push_all_faces)
  have "length (map card_face (fst (createDeck w))) = 130"
    by (simp only: faces length_deck_faces)
  then have "length (fst (createDeck w)) = 130"
    by (simp only: length_map)
  then show ?thesis
    by (simp add: faces mset_deck_faces)
qed

text \<open>
  C1, as the claim states it, fails: the deck built from the empty identifier supply does
  not have 168 cards.
\<close>

theorem createDeck_168_counterexample:
  "length (fst (createDeck \<lparr>randoms = [], uuids = []\<rparr>)) \<noteq> 168"
proof -
  have "length (map card_face (fst (createDeck \<lparr>randoms = [], uuids = []\<rparr>))) = 130"
    by (simp only: createDeck_def push_all_faces length_deck_faces)
  then show ?thesis by simp
qed

section \<open>Legality of a play\<close>

lemmas ex_defs = mk_card_def mk_player_def mk_state_def no_world_def red5_def blue7_def
  green3_def green_draw4_def red9_def yellow1_def yellow2_def blue_draw2_def a_wild_def red2_def
  two_players_def plain_state_def pending_state_def pending_state_no_discard_def

text \<open>
  C3, amended. In every state whose discard pile is not empty, with a pending draw
  (\<open>pendingDrawCount > 0\<close> and a pending type), \<^verbatim>\<open>canPlayCard\<close> answers, for the current
  player, true exactly when the card is of a draw type and its magnitude is at least the
  magnitude of the pending type; so every card that is not a draw card is illegal. The
  magnitudes of the draw types draw2, draw4, draw6, draw10, wild_draw2, wild_draw4 and
  wild_draw_color are 2, 4, 6, 10, 2, 4 and 4.
\<close>

theorem canPlayCard_pending_draw:
  assumes "discardPile state \<noteq> []"
    and "currentPlayerIndex state < length (players state)"
    and "pid = player_id (players state ! currentPlayerIndex state)"
    and "pendingDrawCount state > 0"
    and "pendingDrawType state = Some pendingType"
  shows "canPlayCard state crd pid =
           Inr (card_type crd \<in> set drawTypes
                \<and> drawValues (card_type crd) \<ge> drawValues pendingType)
         \<and> map drawValues drawTypes = [2, 4, 6, 10, 2, 4, 4]"
  using assms
  by (simp add: canPlayCard_def getTopCard_def canStackDrawCard_def drawTypes_def)

text \<open>
  On a pending draw2, the player to move may stack a draw4 and may not play a green 3.
\<close>

theorem canPlayCard_pending_draw_witness:
  "canPlayCard pending_state green_draw4 ''p2'' = Inr True
   \<and> canPlayCard pending_state green3 ''p2'' = Inr False"
proof -
  have h1: "discardPile pending_state \<noteq> []"
    and h2: "currentPlayerIndex pending_state < length (players pending_state)"
    and h3: "''p2'' = player_id (players pending_state ! currentPlayerIndex pending_state)"
    and h4: "pendingDrawCount pending_state > 0"
    and h5: "pendingDrawType pending_state = Some Draw2"
    by (simp_all add: pending_state_def mk_state_def two_players_def mk_player_def)
  show ?thesis
    using canPlayCard_pending_draw [OF h1 h2 h3 h4 h5, of green_draw4]
      canPlayCard_pending_draw [OF h1 h2 h3 h4 h5, of green3]
    by (simp add: green_draw4_def green3_def mk_card_def drawTypes_def)
qed

text \<open>
  C3 as stated fails when the discard pile is empty: with 2 cards pending on a draw2, the
  current player's green 3, which is not a draw card, is legal.
\<close>

theorem canPlayCard_pending_draw_counterexample:
  "pendingDrawCount pending_state_no_discard > 0
   \<and> pendingDrawType pending_state_no_discard = Some Draw2
   \<and> player_id (players pending_state_no_discard
                  ! currentPlayerIndex pending_state_no_discard) = ''p2''
   \<and> card_type green3 \<notin> set drawTypes
   \<and> canPlayCard pending_state_no_discard green3 ''p2'' = Inr True"
  by (simp add: ex_defs drawTypes_def canPlayCard_def getTopCard_def)

text \<open>
  C4, amended. For every state, every card and every player id that is not the id of the
  current player, \<^verbatim>\<open>canPlayCard\<close> returns false when the discard pile is not empty, and
  true in the defensive case where it is empty.
\<close>

theorem canPlayCard_not_your_turn:
  assumes "currentPlayerIndex state < length (players state)"
    and "pid \<noteq> player_id (players state ! currentPlayerIndex state)"
  shows "canPlayCard state crd pid = Inr (discardPile state = [])"
  using assms by (simp add: canPlayCard_def getTopCard_def)

text \<open>While the first player is to move, the second may not play even a wild card.\<close>

theorem canPlayCard_not_your_turn_witness:
  "canPlayCard plain_state a_wild ''p2'' = Inr False"
proof -
  have h1: "currentPlayerIndex plain_state < length (players plain_state)"
    and h2: "''p2'' \<noteq> player_id (players plain_state ! currentPlayerIndex plain_state)"
    and h3: "discardPile plain_state \<noteq> []"
    by (simp_all add: plain_state_def mk_state_def two_players_def mk_player_def)
  show ?thesis
    using canPlayCard_not_your_turn [OF h1 h2, of a_wild] h3 by simp
qed

text \<open>
  C4 as stated fails in the case it names: with an empty discard pile, a player who is
  not the current player gets the answer true.
\<close>

theorem canPlayCard_not_your_turn_counterexample:
  "player_id (players pending_state_no_discard
                ! currentPlayerIndex pending_state_no_discard) \<noteq> ''p1''
   \<and> canPlayCard pending_state_no_discard red5 ''p1'' = Inr True"
  by (simp add: ex_defs canPlayCard_def getTopCard_def)

text \<open>
  C10. There are a state in play, its current player and a card that is not in that
  player's hand such that \<^verbatim>\<open>playCard\<close> does not throw: the discard pile gains the card,
  every hand is unchanged, and the number of cards in play grows by one.
\<close>

theorem playCard_accepts_card_not_in_hand:
  "\<exists>state pid crd selectedColor w state' w'.
     status state = Playing
     \<and> player_id (players state ! currentPlayerIndex state) = pid
     \<and> crd \<notin> set (cards (players state ! currentPlayerIndex state))
     \<and> playCard state pid crd selectedColor w = Inr (state', w')
     \<and> discardPile state' = discardPile state @ [crd]
     \<and> map cards (players state') = map cards (players state)
     \<and> total_cards state' = total_cards state + 1"
  apply (rule exI [of _ plain_state], rule exI [of _ "''p1''"], rule exI [of _ red2])
  apply (rule exI [of _ None], rule exI [of _ no_world])
  apply (simp add: ex_defs playCard_def canPlayCard_def getTopCard_def handleCardEffect_def
      advance_def getNextPlayerIndex_def next_seat_def total_cards_def)
  done

section \<open>Playing cards\<close>

lemma findIndex_Some:
  "findIndex P xs = Some i \<Longrightarrow> i < length xs \<and> P (xs ! i)"
  by (induction xs arbitrary: i) (auto split: if_splits)

lemma findIndex_map:
  "findIndex (\<lambda>x. f x = k) xs = findIndex (\<lambda>y. y = k) (map f xs)"
  by (induction xs) simp_all

lemma findIndex_same_ids:
  "map player_id ps' = map player_id ps \<Longrightarrow>
   findIndex (\<lambda>p. player_id p = pid) ps' = findIndex (\<lambda>p. player_id p = pid) ps"
  by (simp add: findIndex_map [of player_id])

lemma ids_update_cards:
  "i < length ps \<Longrightarrow> map player_id (ps[i := (ps ! i)\<lparr>cards := cs\<rparr>]) = map player_id ps"
  by (simp add: map_update list_update_same_conv)

lemma advance_fields:
  "advance s k w = Inr (s', w') \<Longrightarrow>
   players s' = players s \<and> drawPile s' = drawPile s \<and> discardPile s' = discardPile s
   \<and> status s' = status s \<and> winnerId s' = winnerId s \<and> currentColor s' = currentColor s
   \<and> w' = w"
  by (auto simp: advance_def split: sum.splits)

lemma handleCardEffect_fields:
  "handleCardEffect s crd pid sel w = Inr (s', w') \<Longrightarrow>
   players s' = players s \<and> drawPile s' = drawPile s \<and> discardPile s' = discardPile s
   \<and> status s' = status s \<and> winnerId s' = winnerId s"
  unfolding handleCardEffect_def Let_def
  by (cases "card_type crd")
    (auto simp: pending_draw_def case_prod_beta dest!: advance_fields split: if_splits)


text \<open>What a successful call of each play operation has computed.\<close>

lemma playCard_Inr:
  assumes "playCard s pid crd sel w = Inr (s', w')"
  obtains j ns where "canPlayCard s crd pid = Inr True"
    and "findIndex (\<lambda>p. player_id p = pid) (players s) = Some j"
    and "handleCardEffect
           (s\<lparr>discardPile := discardPile s @ [crd],
              players := (players s)[j := (players s ! j)
                \<lparr>cards := filter (\<lambda>c. card_id c \<noteq> card_id crd) (cards (players s ! j))\<rparr>]\<rparr>)
           crd pid sel w = Inr (ns, w')"
    and "s' = (if filter (\<lambda>c. card_id c \<noteq> card_id crd) (cards (players s ! j)) = []
               then ns\<lparr>status := Finished, winnerId := Some pid\<rparr> else ns)"
  using assms unfolding playCard_def Let_def
  by (auto split: sum.splits bool.splits option.splits if_splits)

lemma playDiscardAll_Inr:
  assumes "playDiscardAll s pid cs = Inr s'"
  obtains j nxt where "cs \<noteq> []" and "list_all (\<lambda>c. color c = color (hd cs)) cs"
    and "color (hd cs) = currentColor s"
    and "findIndex (\<lambda>p. player_id p = pid) (players s) = Some j"
    and "getNextPlayerIndex s 1 = Inr nxt"
    and "s' = (let newCards = filter (\<lambda>c. card_id c \<notin> set (map card_id cs)) (cards (players s ! j));
                  ns = s\<lparr>discardPile := discardPile s @ cs,
                         players := (players s)[j := (players s ! j)\<lparr>cards := newCards\<rparr>],
                         currentPlayerIndex := nxt\<rparr>
               in if newCards = [] then ns\<lparr>status := Finished, winnerId := Some pid\<rparr> else ns)"
  using assms unfolding playDiscardAll_def Let_def
  by (auto split: sum.splits option.splits if_splits)

lemma playMultipleCards_Inr:
  assumes "playMultipleCards s pid cs = Inr s'"
  obtains j nxt where "canPlayMultipleCards s cs pid = Inr True"
    and "findIndex (\<lambda>p. player_id p = pid) (players s) = Some j"
    and "getNextPlayerIndex s 1 = Inr nxt"
    and "s' = (let sortedCards =
                     sort_key (\<lambda>c. if canPlayCard s c pid = Inr True then 1 else 0 :: nat) cs;
                  newCards = filter (\<lambda>c. card_id c \<notin> set (map card_id cs)) (cards (players s ! j));
                  ns = s\<lparr>discardPile := discardPile s @ sortedCards,
                         players := (players s)[j := (players s ! j)\<lparr>cards := newCards\<rparr>],
                         currentColor := (if color (last sortedCards) = Wild then currentColor s
                                          else color (last sortedCards)),
                         currentPlayerIndex := nxt\<rparr>
               in if newCards = [] then ns\<lparr>status := Finished, winnerId := Some pid\<rparr> else ns)"
  using assms unfolding playMultipleCards_def Let_def
  by (auto split: sum.splits bool.splits option.splits if_splits)

lemma hand_after_update:
  assumes "findIndex (\<lambda>p. player_id p = pid) ps = Some j"
    and "findIndex (\<lambda>p. player_id p = pid) (ps[j := (ps ! j)\<lparr>cards := cs\<rparr>]) = Some i"
  shows "cards ((ps[j := (ps ! j)\<lparr>cards := cs\<rparr>]) ! i) = cs"
proof -
  have j: "j < length ps" using assms(1) by (simp add: findIndex_Some)
  then have "findIndex (\<lambda>p. player_id p = pid) (ps[j := (ps ! j)\<lparr>cards := cs\<rparr>])
             = findIndex (\<lambda>p. player_id p = pid) ps"
    by (intro findIndex_same_ids ids_update_cards)
  with assms have "i = j" by simp
  with j show ?thesis by simp
qed

text \<open>
  C6. Whenever \<^verbatim>\<open>playCard\<close>, \<^verbatim>\<open>playMultipleCards\<close> or \<^verbatim>\<open>playDiscardAll\<close> returns and the
  acting player's hand in the resulting state is empty, the resulting state has status
  finished and that player as winner, whatever effect the played card had.
\<close>

theorem empty_hand_wins:
  assumes "playCard state pid crd selectedColor w = Inr (state', w')
           \<or> playMultipleCards state pid cs = Inr state'
           \<or> playDiscardAll state pid cs = Inr state'"
    and "findIndex (\<lambda>p. player_id p = pid) (players state') = Some i"
    and "cards (players state' ! i) = []"
  shows "status state' = Finished \<and> winnerId state' = Some pid"
  using assms(1)
proof (elim disjE)
  assume "playCard state pid crd selectedColor w = Inr (state', w')"
  then show ?thesis
  proof (rule playCard_Inr)
    fix j ns
    let ?new = "filter (\<lambda>c. card_id c \<noteq> card_id crd) (cards (players state ! j))"
    assume j: "findIndex (\<lambda>p. player_id p = pid) (players state) = Some j"
      and eff: "handleCardEffect
           (state\<lparr>discardPile := discardPile state @ [crd],
              players := (players state)[j := (players state ! j)\<lparr>cards := ?new\<rparr>]\<rparr>)
           crd pid selectedColor w = Inr (ns, w')"
      and s': "state' = (if ?new = [] then ns\<lparr>status := Finished, winnerId := Some pid\<rparr> else ns)"
    from eff have "players ns = (players state)[j := (players state ! j)\<lparr>cards := ?new\<rparr>]"
      by (auto dest: handleCardEffect_fields)
    with s' have "players state' = (players state)[j := (players state ! j)\<lparr>cards := ?new\<rparr>]"
      by simp
    with assms(2,3) j have "?new = []"
      using hand_after_update [of pid "players state" j ?new i] by simp
    with s' show ?thesis by simp
  qed
next
  assume "playMultipleCards state pid cs = Inr state'"
  then show ?thesis
  proof (rule playMultipleCards_Inr)
    fix j nxt
    let ?new = "filter (\<lambda>c. card_id c \<notin> set (map card_id cs)) (cards (players state ! j))"
    assume j: "findIndex (\<lambda>p. player_id p = pid) (players state) = Some j"
      and s': "state' = (let sortedCards =
                     sort_key (\<lambda>c. if canPlayCard state c pid = Inr True then 1 else 0 :: nat) cs;
                  newCards = ?new;
                  ns = state\<lparr>discardPile := discardPile state @ sortedCards,
                         players := (players state)[j := (players state ! j)\<lparr>cards := newCards\<rparr>],
                         currentColor := (if color (last sortedCards) = Wild then currentColor state
                                          else color (last sortedCards)),
                         currentPlayerIndex := nxt\<rparr>
               in if newCards = [] then ns\<lparr>status := Finished, winnerId := Some pid\<rparr> else ns)"
    from s' have "players state' = (players state)[j := (players state ! j)\<lparr>cards := ?new\<rparr>]"
      by (simp add: Let_def)
    with assms(2,3) j have "?new = []"
      using hand_after_update [of pid "players state" j ?new i] by simp
    with s' show ?thesis by (simp add: Let_def)
  qed
next
  assume "playDiscardAll state pid cs = Inr state'"
  then show ?thesis
  proof (rule playDiscardAll_Inr)
    fix j nxt
    let ?new = "filter (\<lambda>c. card_id c \<notin> set (map card_id cs)) (cards (players state ! j))"
    assume j: "findIndex (\<lambda>p. player_id p = pid) (players state) = Some j"
      and s': "state' = (let newCards = ?new;
                  ns = state\<lparr>discardPile := discardPile state @ cs,
                         players := (players state)[j := (players state ! j)\<lparr>cards := newCards\<rparr>],
                         currentPlayerIndex := nxt\<rparr>
               in if newCards = [] then ns\<lparr>status := Finished, winnerId := Some pid\<rparr> else ns)"
    from s' have "players state' = (players state)[j := (players state ! j)\<lparr>cards := ?new\<rparr>]"
      by (simp add: Let_def)
    with assms(2,3) j have "?new = []"
      using hand_after_update [of pid "players state" j ?new i] by simp
    with s' show ?thesis by (simp add: Let_def)
  qed
qed


lemmas engine_defs = playCard_def canPlayCard_def getTopCard_def handleCardEffect_def
  advance_def getNextPlayerIndex_def next_seat_def playMultipleCards_def
  canPlayMultipleCards_def playDiscardAll_def

lemmas ex2_defs = mk_card_def mk_player_def mk_state_def no_world_def red5_def red2_def
  blue5_def red_skip_def green3_def green_draw4_def red9_def yellow1_def yellow2_def
  last_card_state_def last_pair_state_def last_reds_state_def

text \<open>
  A last card that is a skip, a last pair of fives played together, and a last pair of
  reds discarded together each end the game for the first player.
\<close>

theorem empty_hand_wins_witness:
  "(\<exists>s'. playCard last_card_state ''p1'' red_skip None no_world = Inr (s', no_world)
         \<and> status s' = Finished \<and> winnerId s' = Some ''p1'')
   \<and> (\<exists>s'. playMultipleCards last_pair_state ''p1'' [blue5, red5] = Inr s'
         \<and> status s' = Finished \<and> winnerId s' = Some ''p1'')
   \<and> (\<exists>s'. playDiscardAll last_reds_state ''p1'' [red5, red2] = Inr s'
         \<and> status s' = Finished \<and> winnerId s' = Some ''p1'')"
proof (intro conjI)
  obtain s' where e: "playCard last_card_state ''p1'' red_skip None no_world = Inr (s', no_world)"
    by (simp add: engine_defs ex2_defs)
  have "findIndex (\<lambda>p. player_id p = ''p1'') (players s') = Some 0"
    and "cards (players s' ! 0) = []"
    using e by (auto simp: engine_defs ex2_defs)
  with e show "\<exists>s'. playCard last_card_state ''p1'' red_skip None no_world = Inr (s', no_world)
         \<and> status s' = Finished \<and> winnerId s' = Some ''p1''"
    using empty_hand_wins [of last_card_state "''p1''" red_skip None no_world s' no_world "[]" 0]
    by blast
next
  obtain s' where e: "playMultipleCards last_pair_state ''p1'' [blue5, red5] = Inr s'"
    by (simp add: engine_defs ex2_defs)
  have "findIndex (\<lambda>p. player_id p = ''p1'') (players s') = Some 0"
    and "cards (players s' ! 0) = []"
    using e by (auto simp: engine_defs ex2_defs)
  with e show "\<exists>s'. playMultipleCards last_pair_state ''p1'' [blue5, red5] = Inr s'
         \<and> status s' = Finished \<and> winnerId s' = Some ''p1''"
    using empty_hand_wins [of last_pair_state "''p1''" red5 None no_world s' no_world
        "[blue5, red5]" 0]
    by blast
next
  obtain s' where e: "playDiscardAll last_reds_state ''p1'' [red5, red2] = Inr s'"
    by (simp add: engine_defs ex2_defs)
  have "findIndex (\<lambda>p. player_id p = ''p1'') (players s') = Some 0"
    and "cards (players s' ! 0) = []"
    using e by (auto simp: engine_defs ex2_defs)
  with e show "\<exists>s'. playDiscardAll last_reds_state ''p1'' [red5, red2] = Inr s'
         \<and> status s' = Finished \<and> winnerId s' = Some ''p1''"
    using empty_hand_wins [of last_reds_state "''p1''" red5 None no_world s' no_world
        "[red5, red2]" 0]
    by blast
qed

section \<open>The example game\<close>

text \<open>The example game of \<^verbatim>\<open>initializeGame\<close>, evaluated.\<close>

lemma opening_game:
  "initializeGame ''p1'' ''Ann'' ''ABCDEF'' 4 a_world = Inr (opening_state, opening_world)"
  by code_simp

lemma opening_card_face:
  "card_face opening_card = (Reverse_everyone, Wild, None)"
  by code_simp

lemma opening_card_in_hand:
  "taken_from_hand opening_state ''p1'' [opening_card]"
  by code_simp

lemma opening_blue:
  "playCard opening_state ''p1'' opening_card (Some Blue) opening_world
   = Inr (blue_state, opening_world)"
  by code_simp

lemma opening_wild:
  "playCard opening_state ''p1'' opening_card (Some Wild) opening_world
   = Inr (wild_state, opening_world)"
  by code_simp

lemma wild_state_color: "currentColor wild_state = Wild"
  by code_simp

lemma blue_state_color: "currentColor blue_state = Blue"
  by code_simp


section \<open>Drawing and elimination\<close>

lemma random_below_le: "0 < n \<Longrightarrow> fst (random_below n w) < n"
  by (simp split: list.splits)

lemma shuffle_loop_mset:
  "i < length xs \<Longrightarrow> mset (fst (shuffle_loop i xs w)) = mset xs"
proof (induction i arbitrary: xs w)
  case 0
  then show ?case by simp
next
  case (Suc i)
  obtain j w1 where r: "random_below (Suc i + 1) w = (j, w1)"
    by (cases "random_below (Suc i + 1) w")
  have "fst (random_below (Suc i + 1) w) < Suc i + 1"
    by (rule random_below_le) simp
  with r have j: "j < length xs" using Suc.prems by simp
  have "mset (xs[Suc i := xs ! j, j := xs ! Suc i]) = mset xs"
    using Suc.prems j by (simp add: mset_swap)
  moreover have "i < length (xs[Suc i := xs ! j, j := xs ! Suc i])"
    using Suc.prems by simp
  ultimately show ?case
    using Suc.IH [of "xs[Suc i := xs ! j, j := xs ! Suc i]" w1] r
    by (simp del: random_below.simps)
qed

lemma shuffleDeck_mset: "mset (fst (shuffleDeck xs w)) = mset xs"
proof (cases xs)
  case Nil
  then show ?thesis by (simp add: shuffleDeck_def)
next
  case (Cons a as)
  then show ?thesis by (simp add: shuffleDeck_def shuffle_loop_mset)
qed

lemma shuffleDeck_length: "length (fst (shuffleDeck xs w)) = length xs"
  using shuffleDeck_mset [of xs w] by (metis size_mset)

lemma renew_ids_length: "length (fst (renew_ids cs w)) = length cs"
  by (induction cs arbitrary: w) (simp_all add: case_prod_beta Let_def del: uuidv4.simps)

lemma reshuffle_length:
  assumes "reshuffle discard w = ((pile, discard'), w')"
  shows "length pile + length discard' = length discard"
proof -
  have "length pile = length (butlast discard)"
    using assms shuffleDeck_length [of "fst (renew_ids (butlast discard) w)"]
    by (auto simp: reshuffle_def case_prod_beta Let_def renew_ids_length)
  moreover have "length discard' = (if discard = [] then 0 else 1)"
    using assms by (auto simp: reshuffle_def case_prod_beta Let_def)
  ultimately show ?thesis
    by (cases discard rule: rev_cases) simp_all
qed

lemma draw_loop_length:
  "draw_loop n pile discard drawn w = ((pile', discard', drawn'), w') \<Longrightarrow>
   length pile' + length discard' + length drawn'
   = length pile + length discard + length drawn"
proof (induction n arbitrary: pile discard drawn w)
  case 0
  then show ?case by simp
next
  case (Suc n)
  obtain pile1 discard1 w1 where
    r: "(if pile = [] then reshuffle discard w else ((pile, discard), w)) = ((pile1, discard1), w1)"
    by (metis prod.exhaust)
  then have len: "length pile1 + length discard1 = length pile + length discard"
    by (auto split: if_splits dest: reshuffle_length)
  show ?case
  proof (cases "pile1 = []")
    case True
    with Suc.prems r have "draw_loop n pile1 discard1 drawn w1 = ((pile', discard', drawn'), w')"
      by simp
    from Suc.IH [OF this] len show ?thesis by simp
  next
    case False
    with Suc.prems r
    have "draw_loop n (butlast pile1) discard1 (drawn @ [last pile1]) w1
          = ((pile', discard', drawn'), w')"
      by simp
    from Suc.IH [OF this] len False show ?thesis
      by (cases pile1 rule: rev_cases) simp_all
  qed
qed

lemma filter_other_ids:
  "distinct (map f xs) \<Longrightarrow> i < length xs \<Longrightarrow>
   filter (\<lambda>x. f x \<noteq> f (xs ! i)) xs = take i xs @ drop (Suc i) xs"
proof (induction xs arbitrary: i)
  case Nil
  then show ?case by simp
next
  case (Cons a xs)
  show ?case
  proof (cases i)
    case 0
    from Cons.prems(1) have "f a \<notin> f ` set xs" by simp
    then have "\<forall>x\<in>set xs. f x \<noteq> f a" by (metis imageI)
    then have "filter (\<lambda>x. f x \<noteq> f a) xs = xs"
      by (simp add: filter_id_conv)
    with 0 show ?thesis by simp
  next
    case (Suc k)
    with Cons.prems have "f a \<noteq> f (xs ! k)" by auto
    with Suc Cons show ?thesis by simp
  qed
qed

lemma sum_without_nth:
  fixes g :: "'a \<Rightarrow> nat"
  shows "i < length xs \<Longrightarrow>
   sum_list (map g (take i xs @ drop (Suc i) xs)) + g (xs ! i) = sum_list (map g xs)"
proof -
  assume "i < length xs"
  then have "xs = take i xs @ xs ! i # drop (Suc i) xs"
    by (rule id_take_nth_drop)
  then have "sum_list (map g xs) = sum_list (map g (take i xs @ xs ! i # drop (Suc i) xs))"
    by simp
  then show ?thesis by simp
qed


lemma length_without_nth:
  "i < length xs \<Longrightarrow> length (take i xs @ drop (Suc i) xs) = length xs - 1"
  by simp

text \<open>What \<^verbatim>\<open>eliminatePlayer\<close> does to a roster of distinct ids.\<close>

lemma eliminatePlayer_effect:
  assumes d: "distinct (map player_id (players st))"
    and f: "findIndex (\<lambda>p. player_id p = pid) (players st) = Some i"
    and c: "currentPlayerIndex st < length (players st)"
    and n: "2 \<le> length (players st)"
  shows "\<exists>st' w'. eliminatePlayer st pid w = Inr (st', w')
     \<and> players st' = filter (\<lambda>p. player_id p \<noteq> pid) (players st)
     \<and> length (players st') = length (players st) - 1
     \<and> drawPile st' = fst (shuffleDeck (drawPile st @ cards (players st ! i)) w)
     \<and> mset (drawPile st') = mset (drawPile st) + mset (cards (players st ! i))
     \<and> discardPile st' = discardPile st
     \<and> currentPlayerIndex st' =
         (if i < currentPlayerIndex st then currentPlayerIndex st - 1
          else if i = currentPlayerIndex st
          then currentPlayerIndex st mod length (players st')
          else currentPlayerIndex st)
     \<and> currentPlayerIndex st' < length (players st')
     \<and> (if length (players st') = 1
         then status st' = Finished \<and> winnerId st' = Some (player_id (hd (players st')))
         else status st' = status st \<and> winnerId st' = winnerId st)"
proof -
  from f have i: "i < length (players st)" and pid: "player_id (players st ! i) = pid"
    by (auto dest: findIndex_Some)
  let ?rem = "filter (\<lambda>p. player_id p \<noteq> pid) (players st)"
  have rem: "?rem = take i (players st) @ drop (Suc i) (players st)"
    using filter_other_ids [OF d i] pid by simp
  have len: "length ?rem = length (players st) - 1"
    using i by (simp only: rem length_without_nth)
  obtain pile w1 where
    sh: "shuffleDeck (drawPile st @ cards (players st ! i)) w = (pile, w1)"
    by (cases "shuffleDeck (drawPile st @ cards (players st ! i)) w")
  have pile: "mset pile = mset (drawPile st) + mset (cards (players st ! i))"
    using shuffleDeck_mset [of "drawPile st @ cards (players st ! i)" w] sh by simp
  have ne: "?rem \<noteq> []" using len n by auto
  show ?thesis
  proof (cases "length ?rem = 1")
    case True
    then have two: "length (players st) = 2" using len n by simp
    from True show ?thesis
      using f sh pile two c i by (auto simp add: eliminatePlayer_def Let_def)
  next
    case False
    have "currentPlayerIndex st mod length ?rem < length ?rem"
      using ne by simp
    with False show ?thesis
      using f sh pile ne c i len by (auto simp add: eliminatePlayer_def Let_def)
  qed
qed

lemma drawCards_unfold:
  assumes "findIndex (\<lambda>p. player_id p = pid) (players state) = Some i"
    and "draw_loop cnt (drawPile state) (discardPile state) [] w = ((pile, discard, drawn), w1)"
  shows "drawCards state pid cnt w =
     (if 25 \<le> length (cards (players state ! i) @ drawn)
      then eliminatePlayer
             (state\<lparr>players := (players state)[i := (players state ! i)
                        \<lparr>cards := cards (players state ! i) @ drawn, hasCalledUno := False\<rparr>],
                     drawPile := pile, discardPile := discard\<rparr>) pid w1
      else Inr (state\<lparr>players := (players state)[i := (players state ! i)
                        \<lparr>cards := cards (players state ! i) @ drawn, hasCalledUno := False\<rparr>],
                     drawPile := pile, discardPile := discard\<rparr>, w1))"
  using assms by (simp add: drawCards_def Let_def)


lemma ids_update_drawn:
  "i < length ps \<Longrightarrow>
   map player_id (ps[i := (ps ! i)\<lparr>cards := cs, hasCalledUno := b\<rparr>]) = map player_id ps"
  by (simp add: map_update list_update_same_conv)

lemma filter_update_removed:
  assumes "i < length ps" and "\<not> P (ps ! i)" and "\<not> P p'"
  shows "filter P (ps[i := p']) = filter P ps"
proof -
  have "filter P (ps[i := p']) = filter P (take i ps @ p' # drop (Suc i) ps)"
    using assms(1) by (simp only: upd_conv_take_nth_drop)
  also have "\<dots> = filter P (take i ps @ ps ! i # drop (Suc i) ps)"
    using assms(2,3) by simp
  also have "\<dots> = filter P ps"
    using assms(1) by (simp only: id_take_nth_drop [symmetric])
  finally show ?thesis .
qed

text \<open>
  C7, amended. In a roster of at least two players with distinct ids and a valid current
  index, every \<^verbatim>\<open>drawCards\<close> call whose loop leaves the drawing player with at least 25
  cards returns a state in which that player is removed from the roster (the others stay,
  in order), the draw pile is the shuffle of what the loop left of it followed by the
  player's entire hand (so it holds exactly those cards), and the current index is
  decremented if the eliminated seat preceded it, reduced modulo the new roster size if it
  was the eliminated seat, and unchanged otherwise; the index is valid for the new roster.
  If exactly one player remains, the status is finished and that player is the winner.
\<close>

theorem drawCards_elimination:
  assumes d: "distinct (map player_id (players state))"
    and c: "currentPlayerIndex state < length (players state)"
    and n: "2 \<le> length (players state)"
    and f: "findIndex (\<lambda>p. player_id p = pid) (players state) = Some i"
    and l: "draw_loop cnt (drawPile state) (discardPile state) [] w
            = ((pile, discard, drawn), w1)"
    and h: "25 \<le> length (cards (players state ! i) @ drawn)"
  shows "\<exists>state' w'. drawCards state pid cnt w = Inr (state', w')
     \<and> players state' = filter (\<lambda>p. player_id p \<noteq> pid) (players state)
     \<and> pid \<notin> set (map player_id (players state'))
     \<and> length (players state') = length (players state) - 1
     \<and> drawPile state' = fst (shuffleDeck (pile @ cards (players state ! i) @ drawn) w1)
     \<and> mset (drawPile state') = mset pile + mset (cards (players state ! i) @ drawn)
     \<and> currentPlayerIndex state' =
         (if i < currentPlayerIndex state then currentPlayerIndex state - 1
          else if i = currentPlayerIndex state
          then currentPlayerIndex state mod length (players state')
          else currentPlayerIndex state)
     \<and> currentPlayerIndex state' < length (players state')
     \<and> (if length (players state') = 1
         then status state' = Finished
              \<and> winnerId state' = Some (player_id (hd (players state')))
         else status state' = status state \<and> winnerId state' = winnerId state)"
proof -
  from f have i: "i < length (players state)" and pid: "player_id (players state ! i) = pid"
    by (auto dest: findIndex_Some)
  let ?p' = "(players state ! i)
               \<lparr>cards := cards (players state ! i) @ drawn, hasCalledUno := False\<rparr>"
  let ?st = "state\<lparr>players := (players state)[i := ?p'],
                    drawPile := pile, discardPile := discard\<rparr>"
  have ids: "map player_id (players ?st) = map player_id (players state)"
    using i by (simp add: ids_update_drawn)
  have d': "distinct (map player_id (players ?st))"
    using d by (simp only: ids)
  have f': "findIndex (\<lambda>p. player_id p = pid) (players ?st) = Some i"
    using f findIndex_same_ids [OF ids, of pid] by simp
  have c': "currentPlayerIndex ?st < length (players ?st)"
    and n': "2 \<le> length (players ?st)"
    using c n by simp_all
  have rem: "filter (\<lambda>p. player_id p \<noteq> pid) (players ?st)
             = filter (\<lambda>p. player_id p \<noteq> pid) (players state)"
    using i pid by (simp add: filter_update_removed)
  have hand: "cards (players ?st ! i) = cards (players state ! i) @ drawn"
    using i by simp
  have run: "drawCards state pid cnt w = eliminatePlayer ?st pid w1"
    using drawCards_unfold [OF f l] h by simp
  from eliminatePlayer_effect [OF d' f' c' n', of w1]
  obtain st' w' where e: "eliminatePlayer ?st pid w1 = Inr (st', w')"
    and r: "players st' = filter (\<lambda>p. player_id p \<noteq> pid) (players ?st)"
       "length (players st') = length (players ?st) - 1"
       "mset (drawPile st') = mset (drawPile ?st) + mset (cards (players ?st ! i))"
       "drawPile st' = fst (shuffleDeck (drawPile ?st @ cards (players ?st ! i)) w1)"
       "currentPlayerIndex st' =
         (if i < currentPlayerIndex ?st then currentPlayerIndex ?st - 1
          else if i = currentPlayerIndex ?st
          then currentPlayerIndex ?st mod length (players st')
          else currentPlayerIndex ?st)"
       "currentPlayerIndex st' < length (players st')"
       "if length (players st') = 1
         then status st' = Finished \<and> winnerId st' = Some (player_id (hd (players st')))
         else status st' = status ?st \<and> winnerId st' = winnerId ?st"
    by blast
  have gone: "pid \<notin> set (map player_id (players st'))"
    by (auto simp: r(1))
  have piles: "mset (drawPile st') = mset pile + mset (cards (players state ! i) @ drawn)"
    using r(3) by (simp only: hand) simp
  have pile: "drawPile st' = fst (shuffleDeck (pile @ cards (players state ! i) @ drawn) w1)"
    using r(4) by (simp only: hand) simp
  show ?thesis
    using e run r(1,2,5,6,7) gone piles pile rem by (intro exI [of _ st'] exI [of _ w']) auto
qed


lemmas ex3_defs = mk_card_def mk_player_def mk_state_def no_world_def red5_def blue7_def
  green3_def green_draw4_def red9_def yellow1_def yellow2_def blue_draw2_def

text \<open>
  The first of three players holds 24 cards and draws 2 while the second is to move: the
  roster shrinks to the other two, the turn stays with the second player (now at index 0),
  and all 26 cards are in the draw pile, in the order the shuffle gives them on a random
  tape of zeros (the first card has moved to the top).
\<close>

theorem drawCards_elimination_witness:
  "\<exists>s' w'. drawCards crowded_state' ''p3'' 2 no_world = Inr (s', w')
     \<and> map player_id (players s') = [''p1'', ''p2'']
     \<and> currentPlayerIndex s' = 0
     \<and> drawPile s' = tl big_hand @ [yellow2, yellow1, hd big_hand]
     \<and> length (drawPile s') = 26
     \<and> status s' = Playing"
proof -
  have d: "distinct (map player_id (players crowded_state'))"
    and c: "currentPlayerIndex crowded_state' < length (players crowded_state')"
    and n: "2 \<le> length (players crowded_state')"
    and f: "findIndex (\<lambda>p. player_id p = ''p3'') (players crowded_state') = Some 0"
    by (simp_all add: crowded_state'_def mk_state_def mk_player_def)
  have l: "draw_loop 2 (drawPile crowded_state') (discardPile crowded_state') [] no_world
           = (([], [red9], [yellow2, yellow1]), no_world)"
    by (simp add: crowded_state'_def mk_state_def numeral_2_eq_2)
  have h: "25 \<le> length (cards (players crowded_state' ! 0) @ [yellow2, yellow1])"
    by (simp add: crowded_state'_def mk_state_def mk_player_def big_hand_def)
  have sh: "fst (shuffleDeck ([] @ cards (players crowded_state' ! 0) @ [yellow2, yellow1])
                   no_world)
            = tl big_hand @ [yellow2, yellow1, hd big_hand]"
    by code_simp
  from drawCards_elimination [OF d c n f l h]
  obtain s' w' where r: "drawCards crowded_state' ''p3'' 2 no_world = Inr (s', w')"
    "players s' = filter (\<lambda>p. player_id p \<noteq> ''p3'') (players crowded_state')"
    "drawPile s' = fst (shuffleDeck ([] @ cards (players crowded_state' ! 0)
                                      @ [yellow2, yellow1]) no_world)"
    "currentPlayerIndex s' =
         (if 0 < currentPlayerIndex crowded_state' then currentPlayerIndex crowded_state' - 1
          else if 0 = currentPlayerIndex crowded_state'
          then currentPlayerIndex crowded_state' mod length (players s')
          else currentPlayerIndex crowded_state')"
    "if length (players s') = 1
         then status s' = Finished \<and> winnerId s' = Some (player_id (hd (players s')))
         else status s' = status crowded_state' \<and> winnerId s' = winnerId crowded_state'"
    by blast
  have p: "map player_id (players s') = [''p1'', ''p2'']"
    by (simp add: r(2) crowded_state'_def mk_state_def mk_player_def)
  have "length (map player_id (players s')) = 2"
    by (simp only: p) simp
  then have two: "length (players s') = 2" by simp
  have i: "currentPlayerIndex s' = 0"
    by (simp add: r(4)) (simp add: crowded_state'_def mk_state_def)
  have pile: "drawPile s' = tl big_hand @ [yellow2, yellow1, hd big_hand]"
    by (simp only: r(3) sh)
  have m: "length (drawPile s') = 26"
    by (simp only: pile) (simp add: big_hand_def)
  have st: "status s' = Playing"
    using r(5) two by (simp add: crowded_state'_def mk_state_def)
  show ?thesis
    by (rule exI [of _ s'], rule exI [of _ w']) (simp add: r(1) p i m st flip: pile)
qed

text \<open>
  C7 as stated fails on rosters the engine accepts. When the only player of the opening
  state draws 18 cards, the roster becomes empty and the source computes the index
  \<^verbatim>\<open>0 % 0\<close>, which is \<^verbatim>\<open>NaN\<close>. When two seats carry the same id (\<^verbatim>\<open>addPlayer\<close> compares no
  ids) and that id is eliminated while index 3 is to move, both seats are removed and the
  index becomes 2 in a roster of two.
\<close>

theorem drawCards_elimination_counterexample:
  "length (players opening_state) = 1
   \<and> drawCards opening_state ''p1'' 18 no_world = Inl NaN_index
   \<and> currentPlayerIndex twin_seats < length (players twin_seats)
   \<and> drawCards twin_seats ''p3'' 2 no_world = Inr (twin_seats_after, no_world)
   \<and> map player_id (players twin_seats_after) = [''p2'', ''p1'']
   \<and> currentPlayerIndex twin_seats_after = 2
   \<and> \<not> currentPlayerIndex twin_seats_after < length (players twin_seats_after)"
  by code_simp

text \<open>
  C8, at the input where the code departs from it. Three players, direction +1, the third
  (seat 2) to move with 2 cards pending and 24 cards in hand. One step on from seat 2 is
  seat 0, the first player. \<^verbatim>\<open>processDrawPenalty\<close> eliminates the third player, which
  already puts the index on the first player, and then advances once more: the turn goes
  to the second player.
\<close>

theorem processDrawPenalty_skips_after_elimination:
  "\<exists>s' w'. processDrawPenalty crowded_state no_world = Inr (s', w')
     \<and> map player_id (players crowded_state) = [''p1'', ''p2'', ''p3'']
     \<and> currentPlayerIndex crowded_state = 2
     \<and> direction crowded_state = Plus1
     \<and> getNextPlayerIndex crowded_state 1 = Inr 0
     \<and> map player_id (players s') = [''p1'', ''p2'']
     \<and> direction s' = Plus1
     \<and> currentPlayerIndex s' = 1
     \<and> pendingDrawCount s' = 0 \<and> pendingDrawType s' = None"
  by (simp add: processDrawPenalty_def drawCards_def eliminatePlayer_def shuffleDeck_def
      getNextPlayerIndex_def next_seat_def crowded_state_def big_hand_def ex3_defs
      numeral_2_eq_2 eval_nat_numeral)


text \<open>
  Without an elimination, \<^verbatim>\<open>processDrawPenalty\<close> gives the whole pending draw to the
  current player in one \<^verbatim>\<open>drawCards\<close> call, clears the pending draw and moves the turn one
  step on from the current seat.
\<close>

lemma processDrawPenalty_no_elimination:
  assumes c: "currentPlayerIndex state < length (players state)"
    and p: "0 < pendingDrawCount state"
    and f: "findIndex (\<lambda>p. player_id p = player_id (players state ! currentPlayerIndex state))
              (players state) = Some i"
    and l: "draw_loop (pendingDrawCount state) (drawPile state) (discardPile state) [] w
            = ((pile, discard, drawn), w1)"
    and h: "length (cards (players state ! i) @ drawn) < 25"
  shows "\<exists>drawn_state state'.
       drawCards state (player_id (players state ! currentPlayerIndex state))
         (pendingDrawCount state) w = Inr (drawn_state, w1)
     \<and> processDrawPenalty state w = Inr (state', w1)
     \<and> state' = drawn_state\<lparr>pendingDrawCount := 0, pendingDrawType := None,
                               currentPlayerIndex := currentPlayerIndex state'\<rparr>
     \<and> pendingDrawCount state' = 0 \<and> pendingDrawType state' = None
     \<and> currentPlayerIndex state' =
           next_seat (length (players state)) (direction state) (currentPlayerIndex state)"
proof -
  have ne: "players state \<noteq> []" using c by auto
  show ?thesis
    using c p h ne drawCards_unfold [OF f l]
    by (simp add: processDrawPenalty_def getNextPlayerIndex_def)
qed

section \<open>Conservation of cards\<close>

lemma hands_update:
  assumes "j < length ps"
  shows "sum_list (map (\<lambda>p. length (cards p)) (ps[j := p'])) + length (cards (ps ! j))
         = sum_list (map (\<lambda>p. length (cards p)) ps) + length (cards p')"
proof -
  have "sum_list (map (\<lambda>p. length (cards p)) (ps[j := p']))
        = sum_list (map (\<lambda>p. length (cards p)) (take j ps @ p' # drop (Suc j) ps))"
    using assms by (simp only: upd_conv_take_nth_drop)
  moreover have "sum_list (map (\<lambda>p. length (cards p)) ps)
        = sum_list (map (\<lambda>p. length (cards p)) (take j ps @ ps ! j # drop (Suc j) ps))"
    using assms by (simp only: id_take_nth_drop [symmetric])
  ultimately show ?thesis by simp
qed

lemma filter_played_length:
  assumes d: "distinct (map f xs)" and c: "distinct cs" and s: "set cs \<subseteq> set xs"
  shows "length (filter (\<lambda>x. f x \<notin> set (map f cs)) xs) + length cs = length xs"
proof -
  have inj: "inj_on f (set xs)" and dx: "distinct xs"
    using d by (simp_all add: distinct_map)
  have "\<And>x. x \<in> set xs \<Longrightarrow> (f x \<in> set (map f cs)) = (x \<in> set cs)"
    using inj s by (auto simp: inj_on_def)
  then have "filter (\<lambda>x. f x \<notin> set (map f cs)) xs = filter (\<lambda>x. x \<notin> set cs) xs"
    by (intro filter_cong) auto
  moreover have "length (filter (\<lambda>x. x \<in> set cs) xs) = length cs"
  proof -
    have "length (filter (\<lambda>x. x \<in> set cs) xs) = card ({x. x \<in> set cs} \<inter> set xs)"
      using dx by (rule distinct_length_filter)
    also have "{x. x \<in> set cs} \<inter> set xs = set cs" using s by auto
    also have "card (set cs) = length cs" using c by (rule distinct_card)
    finally show ?thesis .
  qed
  moreover have "length (filter (\<lambda>x. x \<in> set cs) xs) + length (filter (\<lambda>x. x \<notin> set cs) xs)
                 = length xs"
    using sum_length_filter_compl [of "\<lambda>x. x \<in> set cs" xs] by simp
  ultimately show ?thesis by simp
qed

lemma taken_from_handD:
  assumes "taken_from_hand state pid cs"
    and "findIndex (\<lambda>p. player_id p = pid) (players state) = Some j"
  shows "length (filter (\<lambda>c. card_id c \<notin> set (map card_id cs)) (cards (players state ! j)))
         + length cs = length (cards (players state ! j))"
  using assms
  by (intro filter_played_length) (auto simp: taken_from_hand_def list_all_iff)

text \<open>Moving played cards from a hand to the discard pile keeps the number of cards.\<close>

lemma total_cards_play:
  assumes t: "taken_from_hand state pid cs"
    and f: "findIndex (\<lambda>p. player_id p = pid) (players state) = Some j"
    and p: "players state' = (players state)[j := (players state ! j)
              \<lparr>cards := filter (\<lambda>c. card_id c \<notin> set (map card_id cs))
                          (cards (players state ! j))\<rparr>]"
    and d: "length (discardPile state') = length (discardPile state) + length cs"
    and r: "drawPile state' = drawPile state"
  shows "total_cards state' = total_cards state"
proof -
  from f have j: "j < length (players state)" by (simp add: findIndex_Some)
  from hands_update [OF j, of "(players state ! j)
              \<lparr>cards := filter (\<lambda>c. card_id c \<notin> set (map card_id cs))
                          (cards (players state ! j))\<rparr>"]
    taken_from_handD [OF t f]
  show ?thesis
    by (simp add: total_cards_def p d r)
qed


lemma playCard_total:
  assumes t: "taken_from_hand state pid [crd]"
    and r: "playCard state pid crd sel w = Inr (state', w')"
  shows "total_cards state' = total_cards state"
  using r
proof (rule playCard_Inr)
  fix j ns
  let ?new = "filter (\<lambda>c. card_id c \<noteq> card_id crd) (cards (players state ! j))"
  let ?mid = "state\<lparr>discardPile := discardPile state @ [crd],
                     players := (players state)[j := (players state ! j)\<lparr>cards := ?new\<rparr>]\<rparr>"
  assume j: "findIndex (\<lambda>p. player_id p = pid) (players state) = Some j"
    and eff: "handleCardEffect ?mid crd pid sel w = Inr (ns, w')"
    and s': "state' = (if ?new = [] then ns\<lparr>status := Finished, winnerId := Some pid\<rparr> else ns)"
  from eff have same: "players ns = players ?mid" "drawPile ns = drawPile ?mid"
    "discardPile ns = discardPile ?mid"
    by (auto dest: handleCardEffect_fields)
  have "total_cards state' = total_cards ns"
    by (simp add: s' total_cards_def)
  also have "\<dots> = total_cards state"
    using t j by (rule total_cards_play) (simp_all add: same)
  finally show ?thesis .
qed

lemma playMultipleCards_total:
  assumes t: "taken_from_hand state pid cs"
    and r: "playMultipleCards state pid cs = Inr state'"
  shows "total_cards state' = total_cards state"
  using r
proof (rule playMultipleCards_Inr)
  fix j nxt
  assume j: "findIndex (\<lambda>p. player_id p = pid) (players state) = Some j"
    and s': "state' = (let sortedCards =
                     sort_key (\<lambda>c. if canPlayCard state c pid = Inr True then 1 else 0 :: nat) cs;
                  newCards = filter (\<lambda>c. card_id c \<notin> set (map card_id cs))
                               (cards (players state ! j));
                  ns = state\<lparr>discardPile := discardPile state @ sortedCards,
                         players := (players state)[j := (players state ! j)\<lparr>cards := newCards\<rparr>],
                         currentColor := (if color (last sortedCards) = Wild then currentColor state
                                          else color (last sortedCards)),
                         currentPlayerIndex := nxt\<rparr>
               in if newCards = [] then ns\<lparr>status := Finished, winnerId := Some pid\<rparr> else ns)"
  show ?thesis
    using t j by (rule total_cards_play) (simp_all add: s' Let_def)
qed

lemma playDiscardAll_total:
  assumes t: "taken_from_hand state pid cs"
    and r: "playDiscardAll state pid cs = Inr state'"
  shows "total_cards state' = total_cards state"
  using r
proof (rule playDiscardAll_Inr)
  fix j nxt
  assume j: "findIndex (\<lambda>p. player_id p = pid) (players state) = Some j"
    and s': "state' = (let newCards = filter (\<lambda>c. card_id c \<notin> set (map card_id cs))
                               (cards (players state ! j));
                  ns = state\<lparr>discardPile := discardPile state @ cs,
                         players := (players state)[j := (players state ! j)\<lparr>cards := newCards\<rparr>],
                         currentPlayerIndex := nxt\<rparr>
               in if newCards = [] then ns\<lparr>status := Finished, winnerId := Some pid\<rparr> else ns)"
  show ?thesis
    using t j by (rule total_cards_play) (simp_all add: s' Let_def)
qed

lemma eliminatePlayer_total:
  assumes d: "distinct (map player_id (players st))"
    and e: "eliminatePlayer st pid w = Inr (st', w')"
  shows "total_cards st' = total_cards st"
proof (cases "findIndex (\<lambda>p. player_id p = pid) (players st)")
  case None
  with e show ?thesis by (simp add: eliminatePlayer_def)
next
  case (Some i)
  then have i: "i < length (players st)" and pid: "player_id (players st ! i) = pid"
    by (auto dest: findIndex_Some)
  let ?rem = "filter (\<lambda>p. player_id p \<noteq> pid) (players st)"
  have rem: "?rem = take i (players st) @ drop (Suc i) (players st)"
    using filter_other_ids [OF d i] pid by simp
  have hands: "sum_list (map (\<lambda>p. length (cards p)) ?rem) + length (cards (players st ! i))
               = sum_list (map (\<lambda>p. length (cards p)) (players st))"
    using sum_without_nth [OF i, of "\<lambda>p. length (cards p)"] by (simp only: rem)
  have pile: "length (fst (shuffleDeck (drawPile st @ cards (players st ! i)) w))
              = length (drawPile st) + length (cards (players st ! i))"
    by (simp add: shuffleDeck_length)
  have "players st' = ?rem
        \<and> drawPile st' = fst (shuffleDeck (drawPile st @ cards (players st ! i)) w)
        \<and> discardPile st' = discardPile st"
    using e Some
    by (auto simp: eliminatePlayer_def Let_def case_prod_beta split: if_splits)
  with hands pile show ?thesis
    by (simp add: total_cards_def)
qed

lemma drawCards_total:
  assumes d: "distinct (map player_id (players state))"
    and r: "drawCards state pid cnt w = Inr (state', w')"
  shows "total_cards state' = total_cards state"
proof -
  from r obtain i where f: "findIndex (\<lambda>p. player_id p = pid) (players state) = Some i"
    by (auto simp: drawCards_def split: option.splits)
  then have i: "i < length (players state)" by (simp add: findIndex_Some)
  obtain pile discard drawn w1 where
    l: "draw_loop cnt (drawPile state) (discardPile state) [] w = ((pile, discard, drawn), w1)"
    by (metis prod.exhaust)
  let ?p' = "(players state ! i)
               \<lparr>cards := cards (players state ! i) @ drawn, hasCalledUno := False\<rparr>"
  let ?st = "state\<lparr>players := (players state)[i := ?p'],
                    drawPile := pile, discardPile := discard\<rparr>"
  have len: "length pile + length discard + length drawn
             = length (drawPile state) + length (discardPile state)"
    using draw_loop_length [OF l] by simp
  have mid: "total_cards ?st = total_cards state"
    using hands_update [OF i, of ?p'] len by (simp add: total_cards_def)
  have d': "distinct (map player_id (players ?st))"
    using d i by (simp add: ids_update_drawn)
  show ?thesis
  proof (cases "25 \<le> length (cards (players state ! i) @ drawn)")
    case True
    with r have "eliminatePlayer ?st pid w1 = Inr (state', w')"
      by (simp add: drawCards_unfold [OF f l])
    from eliminatePlayer_total [OF d' this] mid show ?thesis by simp
  next
    case False
    with r have "state' = ?st"
      by (simp add: drawCards_unfold [OF f l])
    with mid show ?thesis by simp
  qed
qed

lemma processDrawPenalty_total:
  assumes d: "distinct (map player_id (players state))"
    and r: "processDrawPenalty state w = Inr (state', w')"
  shows "total_cards state' = total_cards state"
proof (cases "pendingDrawCount state = 0")
  case True
  with r show ?thesis by (simp add: processDrawPenalty_def)
next
  case False
  with r obtain ns nxt where
    dr: "drawCards state (player_id (players state ! currentPlayerIndex state))
           (pendingDrawCount state) w = Inr (ns, w')"
    and s': "state' = ns\<lparr>pendingDrawCount := 0, pendingDrawType := None,
                           currentPlayerIndex := nxt\<rparr>"
    by (auto simp: processDrawPenalty_def split: if_splits sum.splits)
  from drawCards_total [OF d dr] show ?thesis
    by (simp add: s' total_cards_def)
qed

lemma callUno_total:
  assumes "callUno state pid = Inr state'"
  shows "total_cards state' = total_cards state"
proof -
  from assms obtain i where f: "findIndex (\<lambda>p. player_id p = pid) (players state) = Some i"
    and s': "state' = state\<lparr>players := (players state)
               [i := (players state ! i)\<lparr>hasCalledUno := True\<rparr>]\<rparr>"
    by (auto simp: callUno_def Let_def split: option.splits if_splits)
  from f have i: "i < length (players state)" by (simp add: findIndex_Some)
  from hands_update [OF i, of "(players state ! i)\<lparr>hasCalledUno := True\<rparr>"]
  show ?thesis by (simp add: s' total_cards_def)
qed

text \<open>
  C2, amended. In every state with status playing whose players have distinct ids, every
  engine request that returns (\<^verbatim>\<open>playCard\<close>, \<^verbatim>\<open>playMultipleCards\<close>, \<^verbatim>\<open>playDiscardAll\<close>,
  \<^verbatim>\<open>drawCards\<close>, \<^verbatim>\<open>processDrawPenalty\<close>, \<^verbatim>\<open>challengeUno\<close>, and \<^verbatim>\<open>callUno\<close> as well), with the
  played cards being different cards of the acting player's hand, in which no two cards
  share an id, leaves the sum of all hand sizes, the draw pile size and the discard pile
  size unchanged. This covers a draw that eliminates the player: the hand goes to the draw
  pile.
\<close>

theorem total_cards_invariant:
  assumes "status state = Playing"
    and "distinct (map player_id (players state))"
    and "plays_from_hand action state"
    and "apply_action action state w = Inr (state', w')"
  shows "total_cards state' = total_cards state"
proof (cases action)
  case (AddPlayer pid nm ai)
  with assms(1,4) show ?thesis
    by (simp add: with_world_def addPlayer_def split: if_splits)
next
  case StartGame
  with assms(1,4) show ?thesis by (simp add: startGame_def)
next
  case (PlayCard pid crd sel)
  with assms(3,4) have "taken_from_hand state pid [crd]"
    and "playCard state pid crd sel w = Inr (state', w')"
    by simp_all
  then show ?thesis by (rule playCard_total)
next
  case (PlayMultipleCards pid cs)
  with assms(3,4) have "taken_from_hand state pid cs"
    and "playMultipleCards state pid cs = Inr state'"
    by (simp_all add: with_world_def split: sum.splits)
  then show ?thesis by (rule playMultipleCards_total)
next
  case (PlayDiscardAll pid cs)
  with assms(3,4) have "taken_from_hand state pid cs"
    and "playDiscardAll state pid cs = Inr state'"
    by (simp_all add: with_world_def split: sum.splits)
  then show ?thesis by (rule playDiscardAll_total)
next
  case (DrawCards pid n)
  with assms(4) have "drawCards state pid n w = Inr (state', w')" by simp
  with assms(2) show ?thesis by (rule drawCards_total)
next
  case ProcessDrawPenalty
  with assms(4) have "processDrawPenalty state w = Inr (state', w')" by simp
  with assms(2) show ?thesis by (rule processDrawPenalty_total)
next
  case (CallUno pid)
  with assms(4) have "callUno state pid = Inr state'"
    by (simp add: with_world_def split: sum.splits)
  then show ?thesis by (rule callUno_total)
next
  case (ChallengeUno challenger target)
  with assms(4) have "drawCards state target 4 w = Inr (state', w')"
    by (simp add: challengeUno_def Let_def split: option.splits if_splits)
  with assms(2) show ?thesis by (rule drawCards_total)
qed


text \<open>
  Playing a red 5 from the hand keeps 7 cards in play; a draw of 2 that eliminates the
  holder of 24 cards keeps 31 cards in play.
\<close>

theorem total_cards_invariant_witness:
  "(\<exists>s' w'. apply_action (PlayCard ''p1'' red5 None) plain_state no_world = Inr (s', w')
       \<and> total_cards s' = 7 \<and> total_cards plain_state = 7)
   \<and> (\<exists>s' w'. apply_action (DrawCards ''p3'' 2) crowded_state' no_world = Inr (s', w')
       \<and> length (players s') = 2
       \<and> total_cards s' = 31 \<and> total_cards crowded_state' = 31)"
proof (intro conjI)
  have st: "status plain_state = Playing"
    and d: "distinct (map player_id (players plain_state))"
    and t: "total_cards plain_state = 7"
    by (simp_all add: total_cards_def ex_defs)
  have h: "plays_from_hand (PlayCard ''p1'' red5 None) plain_state"
    by (simp add: taken_from_hand_def ex_defs)
  obtain s' w' where
    r: "apply_action (PlayCard ''p1'' red5 None) plain_state no_world = Inr (s', w')"
    by (simp add: engine_defs ex_defs)
  from total_cards_invariant [OF st d h r] t have "total_cards s' = 7" by simp
  with r t show "\<exists>s' w'. apply_action (PlayCard ''p1'' red5 None) plain_state no_world
       = Inr (s', w') \<and> total_cards s' = 7 \<and> total_cards plain_state = 7"
    by (intro exI [of _ s'] exI [of _ w']) simp
next
  have st: "status crowded_state' = Playing"
    and d: "distinct (map player_id (players crowded_state'))"
    and t: "total_cards crowded_state' = 31"
    by (simp_all add: total_cards_def crowded_state'_def big_hand_def ex_defs)
  have h: "plays_from_hand (DrawCards ''p3'' 2) crowded_state'"
    by simp
  obtain s' w' where
    r: "apply_action (DrawCards ''p3'' 2) crowded_state' no_world = Inr (s', w')"
    and n: "length (players s') = 2"
    by (simp add: drawCards_def eliminatePlayer_def shuffleDeck_def crowded_state'_def
        big_hand_def ex_defs numeral_2_eq_2)
  from total_cards_invariant [OF st d h r] t have "total_cards s' = 31" by simp
  with r n t show "\<exists>s' w'. apply_action (DrawCards ''p3'' 2) crowded_state' no_world
       = Inr (s', w') \<and> length (players s') = 2
       \<and> total_cards s' = 31 \<and> total_cards crowded_state' = 31"
    by (intro exI [of _ s'] exI [of _ w']) simp
qed

text \<open>The example games with a repeated id, evaluated.\<close>

lemma projr_eq:
  "(case x of Inl e \<Rightarrow> False | Inr y \<Rightarrow> True) \<Longrightarrow> x = Inr (projr x)"
  by (cases x) simp_all

lemma twin_lobby_evaluated:
  "case addPlayer opening_state ''p1'' ''Ann again'' False of
     Inl e \<Rightarrow> False
   | Inr s \<Rightarrow> (case addPlayer s ''p2'' ''Bob'' False of Inl e \<Rightarrow> False | Inr s' \<Rightarrow> True)"
  by code_simp

lemma twin_game_evaluated:
  "case startGame twin_lobby' a_world of
     Inl e \<Rightarrow> False
   | Inr (s, w) \<Rightarrow>
       status s = Playing
       \<and> map player_id (players s) = [''p1'', ''p1'', ''p2'']
       \<and> total_cards s = 130
       \<and> (case drawCards s ''p1'' 18 w of
             Inl e \<Rightarrow> False
           | Inr (s', w') \<Rightarrow> w' = w \<and> total_cards s' = 123)"
  by code_simp

lemma same_id_evaluated:
  "status same_id_state = Playing
   \<and> distinct (map player_id (players same_id_state))
   \<and> red5 \<in> set (cards (players same_id_state ! 0))
   \<and> total_cards same_id_state = 8
   \<and> apply_action (PlayCard ''p1'' red5 None) same_id_state no_world
       = Inr (same_id_after, no_world)
   \<and> total_cards same_id_after = 7"
  by code_simp

text \<open>
  C2 as stated fails on a state the engine produces. \<^verbatim>\<open>addPlayer\<close> compares no ids: after
  \<^verbatim>\<open>initializeGame\<close>, a second player is added under the host's id, then a third, and the
  game is started; 130 cards are in play. The host's id draws 18 cards and is eliminated:
  \<^verbatim>\<open>eliminatePlayer\<close> removes both seats with that id and returns the hand of the first
  only, so 123 cards remain. It also fails where two cards of a hand share an id: playing
  one removes both from the hand, and of 8 cards 7 remain.
\<close>

theorem total_cards_counterexample:
  "produced (\<lambda>sel. True) twin_game
   \<and> addPlayer opening_state ''p1'' ''Ann again'' False = Inr twin_lobby
   \<and> addPlayer twin_lobby ''p2'' ''Bob'' False = Inr twin_lobby'
   \<and> startGame twin_lobby' a_world = Inr (twin_game, twin_world)
   \<and> status twin_game = Playing
   \<and> map player_id (players twin_game) = [''p1'', ''p1'', ''p2'']
   \<and> total_cards twin_game = 130
   \<and> apply_action (DrawCards ''p1'' 18) twin_game twin_world
       = Inr (twin_game_after, twin_world)
   \<and> total_cards twin_game_after = 123
   \<and> status same_id_state = Playing
   \<and> distinct (map player_id (players same_id_state))
   \<and> red5 \<in> set (cards (players same_id_state ! 0))
   \<and> total_cards same_id_state = 8
   \<and> apply_action (PlayCard ''p1'' red5 None) same_id_state no_world
       = Inr (same_id_after, no_world)
   \<and> total_cards same_id_after = 7"
proof -
  have a1: "addPlayer opening_state ''p1'' ''Ann again'' False = Inr twin_lobby"
    unfolding twin_lobby_def using twin_lobby_evaluated
    by (intro projr_eq) (simp split: sum.splits)
  have a2: "addPlayer twin_lobby ''p2'' ''Bob'' False = Inr twin_lobby'"
    unfolding twin_lobby'_def using twin_lobby_evaluated a1
    by (intro projr_eq) (simp split: sum.splits)
  obtain s w where sg: "startGame twin_lobby' a_world = Inr (s, w)"
    using twin_game_evaluated by (cases "startGame twin_lobby' a_world") auto
  with twin_game_evaluated have pl: "status s = Playing"
    and ids: "map player_id (players s) = [''p1'', ''p1'', ''p2'']"
    and t: "total_cards s = 130"
    and dr: "case drawCards s ''p1'' 18 w of
               Inl e \<Rightarrow> False
             | Inr (s', w') \<Rightarrow> w' = w \<and> total_cards s' = 123"
    by simp_all
  have g: "twin_game = s" and gw: "twin_world = w"
    by (simp_all add: twin_game_def twin_world_def sg)
  from dr obtain s' where d: "drawCards s ''p1'' 18 w = Inr (s', w)"
    and t': "total_cards s' = 123"
    by (cases "drawCards s ''p1'' 18 w") auto
  have g': "twin_game_after = s'"
    by (simp add: twin_game_after_def g gw d)
  have p0: "produced (\<lambda>sel. True) opening_state"
    using opening_game by (rule produced.init)
  have "apply_action (AddPlayer ''p1'' ''Ann again'' False) opening_state no_world
        = Inr (twin_lobby, no_world)"
    by (simp add: a1 with_world_def)
  then have p1: "produced (\<lambda>sel. True) twin_lobby"
    by (rule produced.step [OF p0, rotated]) simp
  have "apply_action (AddPlayer ''p2'' ''Bob'' False) twin_lobby no_world
        = Inr (twin_lobby', no_world)"
    by (simp add: a2 with_world_def)
  then have p2: "produced (\<lambda>sel. True) twin_lobby'"
    by (rule produced.step [OF p1, rotated]) simp
  have "apply_action StartGame twin_lobby' a_world = Inr (twin_game, twin_world)"
    by (simp add: sg g gw)
  then have p3: "produced (\<lambda>sel. True) twin_game"
    by (rule produced.step [OF p2, rotated]) simp
  show ?thesis
    using p3 a1 a2 sg pl ids t d t' same_id_evaluated
    by (simp add: g gw g')
qed

section \<open>The current colour\<close>

lemma COLORS_not_wild: "k < length COLORS \<Longrightarrow> COLORS ! k \<noteq> Wild"
  by (auto simp: COLORS_def nth_Cons split: nat.splits)

lemma handleCardEffect_color:
  assumes "handleCardEffect s crd pid sel w = Inr (s', w')"
    and "currentColor s \<noteq> Wild" and "sel \<noteq> Some Wild"
  shows "currentColor s' \<noteq> Wild"
proof -
  have r: "COLORS ! fst (random_below (length COLORS) w) \<noteq> Wild"
    by (rule COLORS_not_wild, rule random_below_le) (simp add: COLORS_def)
  show ?thesis
    using assms r unfolding handleCardEffect_def Let_def
    by (cases "card_type crd")
      (auto simp: pending_draw_def case_prod_beta simp del: random_below.simps
        dest!: advance_fields split: if_splits)
qed

lemma playCard_color:
  assumes r: "playCard state pid crd sel w = Inr (state', w')"
    and c: "currentColor state \<noteq> Wild" and a: "sel \<noteq> Some Wild"
  shows "currentColor state' \<noteq> Wild"
  using r
proof (rule playCard_Inr)
  fix j ns
  let ?new = "filter (\<lambda>c. card_id c \<noteq> card_id crd) (cards (players state ! j))"
  let ?mid = "state\<lparr>discardPile := discardPile state @ [crd],
                     players := (players state)[j := (players state ! j)\<lparr>cards := ?new\<rparr>]\<rparr>"
  assume eff: "handleCardEffect ?mid crd pid sel w = Inr (ns, w')"
    and s': "state' = (if ?new = [] then ns\<lparr>status := Finished, winnerId := Some pid\<rparr> else ns)"
  have "currentColor ?mid \<noteq> Wild" using c by simp
  with eff have "currentColor ns \<noteq> Wild" using a by (rule handleCardEffect_color)
  then show ?thesis by (simp add: s')
qed

lemma playMultipleCards_color:
  assumes "playMultipleCards state pid cs = Inr state'" and "currentColor state \<noteq> Wild"
  shows "currentColor state' \<noteq> Wild"
  using assms(1)
  by (rule playMultipleCards_Inr) (use assms(2) in \<open>simp add: Let_def\<close>)

lemma playDiscardAll_color:
  assumes "playDiscardAll state pid cs = Inr state'"
  shows "currentColor state' = currentColor state"
  using assms by (rule playDiscardAll_Inr) (simp add: Let_def)

lemma eliminatePlayer_color:
  "eliminatePlayer st pid w = Inr (st', w') \<Longrightarrow> currentColor st' = currentColor st"
  by (auto simp: eliminatePlayer_def Let_def case_prod_beta split: option.splits if_splits)

lemma drawCards_color:
  assumes "drawCards state pid cnt w = Inr (state', w')"
  shows "currentColor state' = currentColor state"
proof -
  from assms obtain i where f: "findIndex (\<lambda>p. player_id p = pid) (players state) = Some i"
    by (auto simp: drawCards_def split: option.splits)
  obtain pile discard drawn w1 where
    l: "draw_loop cnt (drawPile state) (discardPile state) [] w = ((pile, discard, drawn), w1)"
    by (metis prod.exhaust)
  show ?thesis
    using assms unfolding drawCards_unfold [OF f l]
    by (auto dest: eliminatePlayer_color split: if_splits)
qed

lemma processDrawPenalty_color:
  assumes "processDrawPenalty state w = Inr (state', w')"
  shows "currentColor state' = currentColor state"
  using assms
  by (auto simp: processDrawPenalty_def dest!: drawCards_color split: if_splits sum.splits)

lemma startGame_color:
  "startGame state w = Inr (state', w') \<Longrightarrow> currentColor state' \<noteq> Wild"
  by (auto simp: startGame_def Let_def case_prod_beta split: if_splits sum.splits)

lemma initializeGame_color:
  "initializeGame host hostName code maxP w = Inr (state, w') \<Longrightarrow> currentColor state \<noteq> Wild"
  by (auto simp: initializeGame_def Let_def case_prod_beta simp del: uuidv4.simps
      split: if_splits sum.splits)

lemma apply_action_color:
  assumes c: "currentColor state \<noteq> Wild"
    and a: "selection_allowed (\<lambda>sel. sel \<noteq> Some Wild) action"
    and r: "apply_action action state w = Inr (state', w')"
  shows "currentColor state' \<noteq> Wild"
proof (cases action)
  case (AddPlayer pid nm ai)
  with r c show ?thesis
    by (auto simp: with_world_def addPlayer_def split: if_splits)
next
  case StartGame
  with r show ?thesis by (simp add: startGame_color)
next
  case (PlayCard pid crd sel)
  with r a have "playCard state pid crd sel w = Inr (state', w')" and "sel \<noteq> Some Wild"
    by simp_all
  with c show ?thesis by (simp add: playCard_color)
next
  case (PlayMultipleCards pid cs)
  with r have "playMultipleCards state pid cs = Inr state'"
    by (simp add: with_world_def split: sum.splits)
  then show ?thesis using c by (rule playMultipleCards_color)
next
  case (PlayDiscardAll pid cs)
  with r have "playDiscardAll state pid cs = Inr state'"
    by (simp add: with_world_def split: sum.splits)
  with c show ?thesis by (simp add: playDiscardAll_color)
next
  case (DrawCards pid n)
  with r c show ?thesis by (simp add: drawCards_color)
next
  case ProcessDrawPenalty
  with r c show ?thesis by (simp add: processDrawPenalty_color)
next
  case (CallUno pid)
  with r c show ?thesis
    by (auto simp: with_world_def callUno_def Let_def split: sum.splits option.splits if_splits)
next
  case (ChallengeUno challenger target)
  with r have "drawCards state target 4 w = Inr (state', w')"
    by (simp add: challengeUno_def Let_def split: option.splits if_splits)
  with c show ?thesis by (simp add: drawCards_color)
qed

text \<open>
  C5, amended. In every state produced by \<^verbatim>\<open>initializeGame\<close> or by any sequence of engine
  requests in which every \<^verbatim>\<open>selectedColor\<close> passed to \<^verbatim>\<open>playCard\<close> is absent or one of red,
  blue, green and yellow, the current colour is one of red, blue, green and yellow.
\<close>

theorem currentColor_never_wild:
  assumes "produced (\<lambda>sel. sel \<noteq> Some Wild) state"
  shows "currentColor state \<in> {Red, Blue, Green, Yellow}"
proof -
  from assms have "currentColor state \<noteq> Wild"
  proof (induction rule: produced.induct)
    case (init host hostName code maxP w state w')
    then show ?case by (rule initializeGame_color)
  next
    case (step state action w state' w')
    from step.IH step.hyps(2,3) show ?case by (rule apply_action_color)
  qed
  then show ?thesis by (cases "currentColor state") simp_all
qed

text \<open>
  The opening state, and the state after the host has played a colourless card choosing
  blue, are produced that way.
\<close>

theorem currentColor_never_wild_witness:
  "currentColor opening_state \<in> {Red, Blue, Green, Yellow}
   \<and> currentColor blue_state \<in> {Red, Blue, Green, Yellow}"
proof -
  have p0: "produced (\<lambda>sel. sel \<noteq> Some Wild) opening_state"
    using opening_game by (rule produced.init)
  have a: "apply_action (PlayCard ''p1'' opening_card (Some Blue)) opening_state opening_world
        = Inr (blue_state, opening_world)"
    using opening_blue by simp
  have p1: "produced (\<lambda>sel. sel \<noteq> Some Wild) blue_state"
    by (rule produced.step [OF p0 _ a]) simp
  from currentColor_never_wild [OF p0] currentColor_never_wild [OF p1]
  show ?thesis by simp
qed

text \<open>
  C5 as stated fails: \<^verbatim>\<open>selectedColor\<close> has the type \<^verbatim>\<open>CardColor\<close>, which includes
  \<^verbatim>\<open>'wild'\<close>, and \<^verbatim>\<open>handleCardEffect\<close> stores what it is given. The host plays the colourless
  card of the opening hand with \<^verbatim>\<open>selectedColor = 'wild'\<close>, and the current colour of the
  state produced is \<^verbatim>\<open>'wild'\<close>.
\<close>

theorem currentColor_wild_counterexample:
  "produced (\<lambda>sel. True) wild_state
   \<and> initializeGame ''p1'' ''Ann'' ''ABCDEF'' 4 a_world = Inr (opening_state, opening_world)
   \<and> taken_from_hand opening_state ''p1'' [opening_card]
   \<and> playCard opening_state ''p1'' opening_card (Some Wild) opening_world
       = Inr (wild_state, opening_world)
   \<and> currentColor wild_state = Wild"
proof -
  have p0: "produced (\<lambda>sel. True) opening_state"
    using opening_game by (rule produced.init)
  have a: "apply_action (PlayCard ''p1'' opening_card (Some Wild)) opening_state opening_world
        = Inr (wild_state, opening_world)"
    using opening_wild by simp
  have "produced (\<lambda>sel. True) wild_state"
    by (rule produced.step [OF p0 _ a]) simp
  then show ?thesis
    using opening_game opening_card_in_hand opening_wild wild_state_color by simp
qed

section \<open>The automated player\<close>

lemma hd_filter_in: "filter P xs \<noteq> [] \<Longrightarrow> hd (filter P xs) \<in> set xs"
  using hd_in_set [of "filter P xs"] by auto

lemma first_by_descending_in:
  "xs \<noteq> [] \<Longrightarrow> first_by_descending key xs \<in> set xs"
proof -
  assume "xs \<noteq> []"
  then have "sort_key (\<lambda>x. - int (key x)) xs \<noteq> []"
    by (metis length_0_conv length_sort)
  then have "hd (sort_key (\<lambda>x. - int (key x)) xs) \<in> set (sort_key (\<lambda>x. - int (key x)) xs)"
    by (rule hd_in_set)
  then show ?thesis by (simp add: first_by_descending_def)
qed

lemma first_of_filter_in:
  "filter P xs \<noteq> [] \<Longrightarrow> first_by_descending key (filter P xs) \<in> set xs"
  using first_by_descending_in [of "filter P xs" key] by auto

lemma selectMediumDifficulty_in:
  "playable \<noteq> [] \<Longrightarrow> selectMediumDifficulty playable state \<in> set playable"
  by (simp add: selectMediumDifficulty_def Let_def hd_filter_in first_of_filter_in)

lemma selectHardDifficulty_in:
  "playable \<noteq> [] \<Longrightarrow> selectHardDifficulty playable state player \<in> set playable"
proof -
  assume ne: "playable \<noteq> []"
  have w: "filter (\<lambda>c. card_type c = WildCard) (filter (\<lambda>c. color c = Wild) playable) \<noteq> []
        \<Longrightarrow> hd (filter (\<lambda>c. card_type c = WildCard) (filter (\<lambda>c. color c = Wild) playable))
            \<in> set playable"
    using hd_filter_in [of "\<lambda>c. card_type c = WildCard" "filter (\<lambda>c. color c = Wild) playable"]
    by auto
  show ?thesis
    using ne w
    by (simp add: selectHardDifficulty_def Let_def hd_filter_in first_of_filter_in)
qed

lemma selectCardToPlay_in:
  assumes "playable \<noteq> []"
  shows "ai_action (fst (selectCardToPlay state player playable difficulty w)) = Play
     \<and> (\<exists>c\<in>set playable.
           ai_card (fst (selectCardToPlay state player playable difficulty w)) = Some c)"
proof -
  have e: "playable ! fst (random_below (length playable) w) \<in> set playable"
    using assms by (intro nth_mem random_below_le) simp
  show ?thesis
    using assms e
    by (cases difficulty)
      (simp_all add: selectCardToPlay_def Let_def case_prod_beta hd_filter_in
        selectMediumDifficulty_in selectHardDifficulty_in del: random_below.simps)
qed

text \<open>
  The parts of C9 that hold. When the player has a legal card, the decision is not a draw
  and its card is one of the legal cards; and a player with exactly two cards gets the
  declaration bundled with the play.
\<close>

lemma makeAIDecision_plays_legal_card:
  assumes "find (\<lambda>p. player_id p = pid) (players state) = Some player"
    and "getPlayableCards state pid = Inr playable"
    and "playable \<noteq> []"
  shows "\<exists>decision w'. makeAIDecision state pid difficulty w = Inr (decision, w')
     \<and> ai_action decision \<noteq> Draw
     \<and> (\<exists>c\<in>set playable. ai_card decision = Some c)
     \<and> (ai_action decision = Call_uno) = (length (cards player) = 2)"
proof -
  obtain d w1 where s: "selectCardToPlay state player playable difficulty w = (d, w1)"
    by (cases "selectCardToPlay state player playable difficulty w")
  with selectCardToPlay_in [OF assms(3), of state player difficulty w]
  have d: "ai_action d = Play" "\<exists>c\<in>set playable. ai_card d = Some c"
    by simp_all
  show ?thesis
  proof (cases "length (cards player) = 2")
    case True
    with assms s d show ?thesis
      by (simp add: makeAIDecision_def Let_def)
  next
    case False
    with assms s d show ?thesis
      by (simp add: makeAIDecision_def Let_def)
  qed
qed

text \<open>
  C9, at the input where the code departs from it. The first player holds a red
  discard_all, a red 5, a red 2 and a blue 7, and red is the current colour. The medium
  tier decides to play the discard_all together with the three red cards; carried out by
  \<^verbatim>\<open>playDiscardAll\<close>, that leaves the player with exactly one card. The action of the
  decision is \<^verbatim>\<open>'play'\<close>, not \<^verbatim>\<open>'call_uno'\<close>.
\<close>

theorem makeAIDecision_discard_all_without_declaration:
  "makeAIDecision discard_all_state ''p1'' Medium no_world
     = Inr (\<lparr>ai_action = Play, ai_card = Some red_discard_all,
             ai_cards = Some [red_discard_all, red5, red2],
             ai_selectedColor = Some Red\<rparr>, no_world)
   \<and> (\<exists>state'. playDiscardAll discard_all_state ''p1'' [red_discard_all, red5, red2]
                   = Inr state'
         \<and> cards (players state' ! 0) = [blue7]
         \<and> length (cards (players state' ! 0)) = 1)"
  by (simp add: makeAIDecision_def getPlayableCards_def selectCardToPlay_def canPlayCard_def
      getTopCard_def playDiscardAll_def getNextPlayerIndex_def next_seat_def
      discard_all_state_def red_discard_all_def ex_defs)

end
